theory Spec2Isabelle
  imports Main "HOL-Library.AList" "HOL-Library.Char_ord" "HOL-Library.List_Lexorder"
    "HOL-Library.Multiset"
begin

section \<open>The vreplica scheduler of eventing-kafka\<close>

text \<open>
  A shallow embedding of \<^verbatim>\<open>pkg/common/scheduler/state\<close>, of the plugin
  \<^verbatim>\<open>podfitsresources\<close> and of the statefulset scheduler
  (\<^verbatim>\<open>pkg/common/scheduler/statefulset\<close>).

  Conventions of the embedding.
  \<^item> Go's \<^verbatim>\<open>int32\<close> and \<^verbatim>\<open>int64\<close> counts of vreplicas, capacities and weights are
    mathematical integers: the development speaks about runs in which no sum or difference
    of vreplicas leaves the machine range. The arithmetic on ordinals and slice lengths
    (\<^verbatim>\<open>grow\<close>, \<^verbatim>\<open>Free\<close>) is computed in \<^verbatim>\<open>int32\<close> with its wrap-around, since the
    ordinal of a pod name that does not parse is \<^verbatim>\<open>math.MaxInt32\<close>.
  \<^item> A pod ordinal is a natural number. \<^verbatim>\<open>OrdinalFromPodName\<close> parses the text after the
    last dash, which holds no minus sign, and every loop over ordinals starts at 0; the
    slice accesses of the source are therefore never made at a negative index.
  \<^item> A function whose source can panic (an index out of the range of a slice) answers an
    option: \<open>None\<close> is the panic, which nothing in these packages recovers from, so that
    \<open>None\<close> passes through every caller.
  \<^item> A Go map that the source ranges over is an association list; the order of the list
    is the order in which the range visits the entries, which Go leaves unspecified.
  \<^item> A Go slice is \<open>'a list option\<close> where the source tells \<^verbatim>\<open>nil\<close> from an empty
    slice, and a list elsewhere.
\<close>

subsection \<open>Pod names and ordinals (helpers.go)\<close>

definition MaxInt32 :: nat where
  "MaxInt32 = 2147483647"

definition digitChar :: "nat \<Rightarrow> char" where
  "digitChar d = ''0123456789'' ! d"

text \<open>\<^verbatim>\<open>strconv.Itoa\<close> on a non-negative number.\<close>

fun Itoa :: "nat \<Rightarrow> string" where
  "Itoa n = (if n < 10 then [digitChar n] else Itoa (n div 10) @ [digitChar (n mod 10)])"

declare Itoa.simps [simp del]

definition PodNameFromOrdinal :: "string \<Rightarrow> nat \<Rightarrow> string" where
  "PodNameFromOrdinal name ordinal = name @ ''-'' @ Itoa ordinal"

definition isDigit :: "char \<Rightarrow> bool" where
  "isDigit c = (48 \<le> (of_char c :: nat) \<and> (of_char c :: nat) \<le> 57)"

definition digitVal :: "char \<Rightarrow> nat" where
  "digitVal c = of_char c - 48"

text \<open>
  \<^verbatim>\<open>strconv.ParseInt(s, 10, 32)\<close> on a text without a minus sign: an optional plus, then
  at least one decimal digit and nothing else; a value above \<^verbatim>\<open>math.MaxInt32\<close> is a range
  error. \<open>None\<close> is the error.
\<close>

definition ParseInt :: "string \<Rightarrow> nat option" where
  "ParseInt s =
     (let ds = (case s of [] \<Rightarrow> [] | c # cs \<Rightarrow> if c = CHR ''+'' then cs else s) in
      if ds = [] \<or> \<not> list_all isDigit ds then None
      else (let n = foldl (\<lambda>acc c. 10 * acc + digitVal c) 0 ds in
            if n > MaxInt32 then None else Some n))"

text \<open>\<^verbatim>\<open>podName[strings.LastIndex(podName, "-")+1:]\<close>; the whole name when it has no dash.\<close>

definition afterLastDash :: "string \<Rightarrow> string" where
  "afterLastDash podName = rev (takeWhile (\<lambda>c. c \<noteq> CHR ''-'') (rev podName))"

definition OrdinalFromPodName :: "string \<Rightarrow> nat" where
  "OrdinalFromPodName podName =
     (case ParseInt (afterLastDash podName) of None \<Rightarrow> MaxInt32 | Some ordinal \<Rightarrow> ordinal)"

subsection \<open>Placements and vpods\<close>

record Placement =
  PodName :: string
  VReplicas :: int

type_synonym NamespacedName = "string \<times> string"

text \<open>
  The three methods of the \<^verbatim>\<open>VPod\<close> interface; \<open>None\<close> is a nil placement slice.
  \<open>PlacementsSpare\<close> is what the capacity of the slice that \<^verbatim>\<open>GetPlacements\<close> returns
  exceeds its length by: an \<^verbatim>\<open>append\<close> to that slice writes into the vpod's own array as
  long as there is spare room.
\<close>

record VPod =
  GetKey :: NamespacedName
  GetVReplicas :: int
  GetPlacements :: "Placement list option"
  PlacementsSpare :: nat

definition elems :: "'a list option \<Rightarrow> 'a list" where
  "elems s = (case s of None \<Rightarrow> [] | Some xs \<Rightarrow> xs)"

text \<open>
  Modelled from the spec: \<^verbatim>\<open>scheduler.GetTotalVReplicas\<close> is not among the sources; the
  specification calls its result the committed total of a placement list.
\<close>

definition GetTotalVReplicas :: "Placement list \<Rightarrow> int" where
  "GetTotalVReplicas ps = sum_list (map VReplicas ps)"

subsection \<open>The state snapshot (state.go)\<close>

record State =
  FreeCap :: "int list"
  LastOrdinal :: int
  Capacity :: int
  NumZones :: int
  NumNodes :: int
  SchedulerPolicy :: string
  NodeToZoneMap :: "string \<Rightarrow> string option"

text \<open>The conversion of an integer to \<^verbatim>\<open>int32\<close>, and so the result of \<^verbatim>\<open>int32\<close> arithmetic.\<close>

definition int32 :: "int \<Rightarrow> int" where
  "int32 x = (x + 2147483648) mod 4294967296 - 2147483648"

definition Free :: "State \<Rightarrow> nat \<Rightarrow> int" where
  "Free s ordinal =
     (if int32 (int (length (FreeCap s))) \<le> int ordinal then Capacity s else FreeCap s ! ordinal)"

text \<open>
  \<^verbatim>\<open>grow\<close>: the difference is an \<^verbatim>\<open>int32\<close>; for the ordinal \<^verbatim>\<open>math.MaxInt32\<close> and an
  empty slice it wraps around to a negative number, and the slice is returned as it is.
\<close>

definition grow :: "int list \<Rightarrow> nat \<Rightarrow> int \<Rightarrow> int list" where
  "grow slice ordinal def =
     (let l = int32 (int (length slice));
          diff = int32 (int32 (int ordinal - l) + 1)
      in if diff \<le> 0 then slice else slice @ replicate (nat diff) def)"

text \<open>\<^verbatim>\<open>slice[i] = v\<close>; \<open>None\<close> is the panic for an index out of range.\<close>

definition setIndex :: "int list \<Rightarrow> nat \<Rightarrow> int \<Rightarrow> int list option" where
  "setIndex slice i v = (if i < length slice then Some (slice[i := v]) else None)"

definition SetFree :: "State \<Rightarrow> nat \<Rightarrow> int \<Rightarrow> State option" where
  "SetFree s ordinal v =
     (case setIndex (grow (FreeCap s) ordinal (Capacity s)) ordinal v of
        None \<Rightarrow> None
      | Some free \<Rightarrow> Some (s\<lparr>FreeCap := free\<rparr>))"

type_synonym Reserved = "(NamespacedName \<times> (string \<times> int) list) list"

text \<open>
  \<^verbatim>\<open>withReserved\<close> returns the vreplicas to account for and, since it deletes from the
  table it is given, the table afterwards.
\<close>

definition withReserved ::
  "NamespacedName \<Rightarrow> string \<Rightarrow> int \<Rightarrow> Reserved \<Rightarrow> int \<times> Reserved" where
  "withReserved key podName committed reserved =
     (case map_of reserved key of
        None \<Rightarrow> (committed, reserved)
      | Some rps \<Rightarrow>
          (case map_of rps podName of
             None \<Rightarrow> (committed, reserved)
           | Some rvreplicas \<Rightarrow>
               if committed < rvreplicas then (rvreplicas, reserved)
               else if committed = rvreplicas then
                 (let rps' = AList.delete podName rps in
                  (committed,
                   if rps' = [] then AList.delete key reserved
                   else AList.update key rps' reserved))
               else (committed, reserved)))"

text \<open>
  The overcommit check of \<^verbatim>\<open>updateFreeCapacity\<close> only writes to the log. The first
  access to \<^verbatim>\<open>free[ordinal]\<close> panics when the slice did not grow up to the ordinal.
\<close>

definition updateFreeCapacity ::
  "int \<Rightarrow> int list \<Rightarrow> int \<Rightarrow> string \<Rightarrow> int \<Rightarrow> (int list \<times> int) option" where
  "updateFreeCapacity capacity free lastOrd podName vreplicas =
     (let ordinal = OrdinalFromPodName podName;
          free1 = grow free ordinal capacity
      in case setIndex free1 ordinal (free1 ! ordinal - vreplicas) of
           None \<Rightarrow> None
         | Some free2 \<Rightarrow>
             Some (free2, if int ordinal > lastOrd \<and> free2 ! ordinal \<noteq> capacity then int ordinal
                          else lastOrd))"

text \<open>
  Modelled from the spec: the policy types of package \<^verbatim>\<open>scheduler\<close> are not among the
  sources; the specification lists the scheduler-type enumeration as
  \<^verbatim>\<open>MAXFILLUP | EVENSPREAD | EVENSPREAD_BYNODE | ""\<close>.
\<close>

definition MAXFILLUP :: string where
  "MAXFILLUP = ''MAXFILLUP''"

definition EVENSPREAD :: string where
  "EVENSPREAD = ''EVENSPREAD''"

definition EVENSPREAD_BYNODE :: string where
  "EVENSPREAD_BYNODE = ''EVENSPREAD_BYNODE''"

datatype error = ErrNotEnoughReplicas | ErrValidatingPolicy | ErrLister string

text \<open>
  What the state builder reads of a node: its name, \<^verbatim>\<open>Spec.Unschedulable\<close> and the
  value of its zone label, \<open>None\<close> when the node has no such label.
\<close>

record Node =
  NodeName :: string
  NodeUnschedulable :: bool
  NodeZone :: "string option"

text \<open>A lister answers with its list or with an error.\<close>

record stateBuilder =
  vpodLister :: "error + VPod list"
  capacity :: int
  schedulerPolicy :: string
  nodeLister :: "error + Node list"

text \<open>A loop whose body may panic: the first panic ends it.\<close>

fun foldlOption :: "('a \<Rightarrow> 'b \<Rightarrow> 'a option) \<Rightarrow> 'a \<Rightarrow> 'b list \<Rightarrow> 'a option" where
  "foldlOption f a [] = Some a"
| "foldlOption f a (x # xs) = (case f a x of None \<Rightarrow> None | Some a' \<Rightarrow> foldlOption f a' xs)"

text \<open>
  The body of the inner loop over the placements of one vpod: the reserved vreplicas are
  taken into account, the free capacity of the pod is updated and the pair (vpod key,
  pod name) is recorded in \<^verbatim>\<open>withPlacement\<close>.
\<close>

type_synonym acc = "int list \<times> int \<times> Reserved \<times> (NamespacedName \<Rightarrow> string list option)"

definition accountPlacement :: "int \<Rightarrow> NamespacedName \<Rightarrow> acc \<Rightarrow> Placement \<Rightarrow> acc option" where
  "accountPlacement cap key a p =
     (case a of (free, lastOrd, reserved, withPlacement) \<Rightarrow>
        (case withReserved key (PodName p) (VReplicas p) reserved of (vreplicas, reserved') \<Rightarrow>
           (case updateFreeCapacity cap free lastOrd (PodName p) vreplicas of
              None \<Rightarrow> None
            | Some (free', last') \<Rightarrow>
                Some (free', last', reserved',
                      withPlacement(key \<mapsto>
                        PodName p #
                        (case withPlacement key of None \<Rightarrow> [] | Some names \<Rightarrow> names))))))"

definition accountVPod :: "int \<Rightarrow> acc \<Rightarrow> VPod \<Rightarrow> acc option" where
  "accountVPod cap a vpod =
     (case a of (free, lastOrd, reserved, withPlacement) \<Rightarrow>
        foldlOption (accountPlacement cap (GetKey vpod))
          (free, lastOrd, reserved, withPlacement(GetKey vpod \<mapsto> []))
          (elems (GetPlacements vpod)))"

text \<open>
  The second loop, over the reservations: the range over the pods of one vpod key is left
  (\<^verbatim>\<open>break\<close>) at the first pod that was seen with a placement.
\<close>

fun accountReservedPods ::
  "int \<Rightarrow> string list option \<Rightarrow> (string \<times> int) list \<Rightarrow> int list \<times> int \<Rightarrow>
   (int list \<times> int) option" where
  "accountReservedPods cap wp [] fl = Some fl"
| "accountReservedPods cap wp ((podName, rvreplicas) # ps) fl =
     (if (case wp of None \<Rightarrow> False | Some names \<Rightarrow> podName \<in> set names) then Some fl
      else (case updateFreeCapacity cap (fst fl) (snd fl) podName rvreplicas of
              None \<Rightarrow> None
            | Some fl' \<Rightarrow> accountReservedPods cap wp ps fl'))"

definition accountReserved ::
  "int \<Rightarrow> (NamespacedName \<Rightarrow> string list option) \<Rightarrow> Reserved \<Rightarrow> int list \<times> int \<Rightarrow>
   (int list \<times> int) option"
  where
  "accountReserved cap withPlacement reserved fl =
     foldlOption (\<lambda>fl' (key, ps). accountReservedPods cap (withPlacement key) ps fl') fl reserved"

definition schedulableNodes :: "Node list \<Rightarrow> (string \<times> string) list" where
  "schedulableNodes nodes =
     concat (map (\<lambda>node. if NodeUnschedulable node then []
                          else (case NodeZone node of None \<Rightarrow> []
                                | Some zoneName \<Rightarrow> [(NodeName node, zoneName)])) nodes)"

text \<open>
  \<^verbatim>\<open>stateBuilder.State\<close>: the snapshot or the error of a lister, and the reservation
  table as the call leaves it (the table is updated in place, also when the node lister
  fails afterwards); \<open>None\<close> when \<^verbatim>\<open>updateFreeCapacity\<close> panics.
\<close>

definition State_build ::
  "stateBuilder \<Rightarrow> Reserved \<Rightarrow> ((error + State) \<times> Reserved) option" where
  "State_build s reserved =
     (case vpodLister s of
        Inl err \<Rightarrow> Some (Inl err, reserved)
      | Inr vpods \<Rightarrow>
          (case foldlOption (accountVPod (capacity s)) ([], - 1, reserved, Map.empty) vpods of
             None \<Rightarrow> None
           | Some (free1, last1, reserved', withPlacement) \<Rightarrow>
               (case accountReserved (capacity s) withPlacement reserved' (free1, last1) of
                  None \<Rightarrow> None
                | Some (free, lastOrd) \<Rightarrow>
                    if schedulerPolicy s = EVENSPREAD \<or> schedulerPolicy s = EVENSPREAD_BYNODE then
                      (case nodeLister s of
                         Inl err \<Rightarrow> Some (Inl err, reserved')
                       | Inr nodes \<Rightarrow>
                           (let nz = schedulableNodes nodes in
                            Some (Inr \<lparr>FreeCap = free, LastOrdinal = lastOrd,
                                       Capacity = capacity s,
                                       NumZones = int (length (remdups (map snd nz))),
                                       NumNodes = int (length (remdups (map fst nz))),
                                       SchedulerPolicy = schedulerPolicy s,
                                       NodeToZoneMap = map_of (rev nz)\<rparr>, reserved')))
                    else
                      Some (Inr \<lparr>FreeCap = free, LastOrdinal = lastOrd, Capacity = capacity s,
                                 NumZones = 0, NumNodes = 0,
                                 SchedulerPolicy = schedulerPolicy s,
                                 NodeToZoneMap = Map.empty\<rparr>, reserved'))))"

text \<open>The reservation of a vpod on a pod, if the table has one.\<close>

definition reservedFor :: "Reserved \<Rightarrow> NamespacedName \<Rightarrow> string \<Rightarrow> int option" where
  "reservedFor reserved key podName =
     (case map_of reserved key of None \<Rightarrow> None | Some rps \<Rightarrow> map_of rps podName)"

subsection \<open>Plugin statuses (interface.go) and PodFitsResources\<close>

datatype Code = Success | Unschedulable | Error

record Status =
  code :: Code
  reasons :: "string list"

definition NewStatus :: "Code \<Rightarrow> string list \<Rightarrow> Status" where
  "NewStatus c rs = \<lparr>code = c, reasons = rs\<rparr>"

definition IsSuccess :: "Status \<Rightarrow> bool" where
  "IsSuccess s = (code s = Success)"

definition IsUnschedulable :: "Status \<Rightarrow> bool" where
  "IsUnschedulable s = (code s = Unschedulable)"

definition ErrReasonUnschedulable :: string where
  "ErrReasonUnschedulable = ''pod at full capacity''"

definition PodFitsResources_Filter :: "State \<Rightarrow> nat \<Rightarrow> Status" where
  "PodFitsResources_Filter states podID =
     (if length (FreeCap states) = 0 \<or> Free states podID > 0 then NewStatus Success []
      else NewStatus Unschedulable [ErrReasonUnschedulable])"

definition accReserved :: "acc \<Rightarrow> Reserved" where
  "accReserved a = fst (snd (snd a))"

subsection \<open>The statefulset scheduler (scheduler.go)\<close>

text \<open>
  Modelled from the spec: the type \<^verbatim>\<open>SchedulerPolicy\<close> is not among the sources; the
  specification gives the configuration as
  \<^verbatim>\<open>{Predicates: [name], Priorities: [{name, weight}]}\<close>.
\<close>

record PriorityPolicy =
  PriorityName :: string
  Weight :: int

record SchedulerPolicyCfg =
  Predicates :: "string list"
  Priorities :: "PriorityPolicy list"

record FilterPlugin =
  FilterName :: string
  Filter :: "State \<Rightarrow> nat \<Rightarrow> Status"

record ScorePlugin =
  ScoreName :: string
  Score :: "State \<Rightarrow> nat \<Rightarrow> int \<times> Status"

text \<open>
  What the scheduler takes from outside its own struct: the constant
  \<^verbatim>\<open>MaxTotalWeight\<close> (its declaration is not among the sources), the plugin registry of
  package \<^verbatim>\<open>factory\<close>, the draws of \<^verbatim>\<open>math/rand\<close> (the \<open>k\<close>-th call of
  \<^verbatim>\<open>rand.Intn(n)\<close> answers \<open>randDraws k mod n\<close>), and what the machine makes of
  converting a non-finite \<^verbatim>\<open>float64\<close> quotient with the given numerator to \<^verbatim>\<open>int32\<close>,
  which Go leaves to the implementation. The last two fields are the texts that
  \<^verbatim>\<open>fmt.Sprintf\<close> makes of a plugin name, a pod and a message for the reason of an Error
  status.
\<close>

record Env =
  MaxTotalWeight :: int
  GetFilterPlugin :: "string \<Rightarrow> FilterPlugin option"
  GetScorePlugin :: "string \<Rightarrow> ScorePlugin option"
  randDraws :: "nat \<Rightarrow> nat"
  int32OfNonFinite :: "int \<Rightarrow> int"
  filterErrorText :: "string \<Rightarrow> nat \<Rightarrow> string \<Rightarrow> string"
  scoreErrorText :: "string \<Rightarrow> nat \<Rightarrow> string \<Rightarrow> string"

text \<open>
  The fields of \<^verbatim>\<open>StatefulSetScheduler\<close> that scheduling reads or writes. The pod lister
  maps a pod name to the node name of the pod, \<open>None\<close> when the lister has no such pod.
  The state accessor answers with the snapshot or an error, and with the reservation table
  as it leaves it, or it panics. \<open>autoscaler\<close> tells whether the field is non-nil,
  \<open>autoscaleCalls\<close> collects the arguments of the calls of \<^verbatim>\<open>Autoscale\<close> and
  \<open>randCalls\<close> counts the calls of \<^verbatim>\<open>rand.Intn\<close> made so far.
\<close>

record StatefulSetScheduler =
  statefulSetName :: string
  podLister :: "string \<Rightarrow> string option"
  stateAccessor :: "Reserved \<Rightarrow> ((error + State) \<times> Reserved) option"
  autoscaler :: bool
  replicas :: int
  pending :: "(NamespacedName \<times> int) list"
  reserved :: Reserved
  policy :: "SchedulerPolicyCfg option"
  autoscaleCalls :: "int list"
  randCalls :: nat

definition ValidatePolicy :: "int \<Rightarrow> SchedulerPolicyCfg \<Rightarrow> string list" where
  "ValidatePolicy maxTotalWeight p =
     map (\<lambda>priority. ''priority '' @ PriorityName priority @
                      '' should have a positive weight applied to it or it has overflown'')
       (filter (\<lambda>priority. Weight priority \<le> 0 \<or> Weight priority \<ge> maxTotalWeight)
          (Priorities p))"

text \<open>
  How a placement slice of the scheduler relates to the slice of the vpod it may have
  started from: either it still lives in the vpod's array, with so many spare cells left,
  or it does not, and the vpod's slice holds the given list.
\<close>

datatype sharing = Shared nat | Detached "Placement list"

definition existingView :: "VPod \<Rightarrow> sharing \<Rightarrow> Placement list \<Rightarrow> Placement list" where
  "existingView vpod sh content =
     (case sh of
        Shared spare \<Rightarrow> take (length (elems (GetPlacements vpod))) content
      | Detached ex \<Rightarrow> ex)"

definition appendPlacement ::
  "VPod \<Rightarrow> Placement list option \<times> sharing \<Rightarrow> Placement \<Rightarrow> Placement list option \<times> sharing" where
  "appendPlacement vpod ps p =
     (case ps of (content, sh) \<Rightarrow>
        (Some (elems content @ [p]),
         case sh of
           Shared 0 \<Rightarrow> Detached (existingView vpod sh (elems content))
         | Shared (Suc spare) \<Rightarrow> Shared spare
         | Detached ex \<Rightarrow> Detached ex))"

text \<open>\<^verbatim>\<open>reservePlacements\<close>; \<open>existing\<close> is what \<^verbatim>\<open>vpod.GetPlacements()\<close> holds at the call.\<close>

definition reserveOne ::
  "NamespacedName \<Rightarrow> Placement list \<Rightarrow> Reserved \<Rightarrow> Placement \<Rightarrow> Reserved" where
  "reserveOne key existing res p =
     (let placed = (case find (\<lambda>e. PodName e = PodName p) existing of
                      None \<Rightarrow> 0 | Some e \<Rightarrow> VReplicas e)
      in if VReplicas p > placed then
           AList.update key
             (AList.update (PodName p) (VReplicas p)
                (case map_of res key of None \<Rightarrow> [] | Some rps \<Rightarrow> rps)) res
         else res)"

definition reservePlacements ::
  "VPod \<Rightarrow> Placement list \<Rightarrow> Placement list \<Rightarrow> StatefulSetScheduler \<Rightarrow> StatefulSetScheduler"
  where
  "reservePlacements vpod existing placements s =
     s\<lparr>reserved := foldl (reserveOne (GetKey vpod) existing) (reserved s) placements\<rparr>"

definition pendingVReplicas :: "StatefulSetScheduler \<Rightarrow> int" where
  "pendingVReplicas s = sum_list (map snd (pending s))"

subsubsection \<open>MAXFILLUP\<close>

fun removeReplicasLoop :: "int \<Rightarrow> Placement list \<Rightarrow> Placement list \<Rightarrow> Placement list" where
  "removeReplicasLoop diff [] newPlacements = newPlacements"
| "removeReplicasLoop diff (p # ps) newPlacements =
     (if diff \<ge> VReplicas p then removeReplicasLoop (diff - VReplicas p) ps newPlacements
      else removeReplicasLoop 0 ps
             (newPlacements @ [\<lparr>PodName = PodName p, VReplicas = VReplicas p - diff\<rparr>]))"

text \<open>The loop of \<^verbatim>\<open>removeReplicas\<close> runs from the last placement down to the first.\<close>

definition removeReplicas :: "int \<Rightarrow> Placement list \<Rightarrow> Placement list" where
  "removeReplicas diff placements = removeReplicasLoop diff (rev placements) []"

fun addToExisting ::
  "Placement list \<Rightarrow> Placement list \<times> int \<times> State \<Rightarrow> (Placement list \<times> int \<times> State) option"
  where
  "addToExisting [] a = Some a"
| "addToExisting (p # ps) (newPlacements, diff, states) =
     (let ordinal = OrdinalFromPodName (PodName p);
          f = Free states ordinal
      in if diff \<ge> 0 \<and> f > 0 then
           (let allocation = min f diff
            in case SetFree states ordinal (f - allocation) of
                 None \<Rightarrow> None
               | Some states' \<Rightarrow>
                   addToExisting ps
                     (newPlacements @
                        [\<lparr>PodName = PodName p, VReplicas = VReplicas p + allocation\<rparr>],
                      diff - allocation, states'))
         else addToExisting ps (newPlacements @ [p], diff, states))"

fun addToNew ::
  "string \<Rightarrow> nat list \<Rightarrow> Placement list \<times> int \<times> State \<Rightarrow>
   (Placement list \<times> int \<times> State) option" where
  "addToNew name [] a = Some a"
| "addToNew name (ordinal # ordinals) (newPlacements, diff, states) =
     (let f = Free states ordinal
      in case (if f > 0 then
                 (let allocation = min f diff
                  in case SetFree states ordinal (f - allocation) of
                       None \<Rightarrow> None
                     | Some states' \<Rightarrow>
                         Some (newPlacements @
                                 [\<lparr>PodName = PodNameFromOrdinal name ordinal,
                                   VReplicas = allocation\<rparr>],
                               diff - allocation, states'))
               else Some (newPlacements, diff, states)) of
           None \<Rightarrow> None
         | Some a \<Rightarrow> if fst (snd a) = 0 then Some a else addToNew name ordinals a)"

definition addReplicas ::
  "StatefulSetScheduler \<Rightarrow> State \<Rightarrow> int \<Rightarrow> Placement list \<Rightarrow> (Placement list \<times> int) option"
  where
  "addReplicas s states diff placements =
     (case addToExisting placements ([], diff, states) of
        None \<Rightarrow> None
      | Some (newPlacements, diff1, states1) \<Rightarrow>
          if diff1 > 0 then
            (case addToNew (statefulSetName s) [0..<nat (replicas s)]
                    (newPlacements, diff1, states1) of
               None \<Rightarrow> None
             | Some (newPlacements2, diff2, states2) \<Rightarrow> Some (newPlacements2, diff2))
          else Some (newPlacements, diff1))"

subsubsection \<open>EVENSPREAD and EVENSPREAD_BYNODE\<close>

text \<open>
  \<^verbatim>\<open>getPodInfo\<close> answers the zone name, the node name and whether it succeeded; the
  names it could not find are empty.
\<close>

definition getPodInfo :: "StatefulSetScheduler \<Rightarrow> State \<Rightarrow> string \<Rightarrow> string \<times> string \<times> bool" where
  "getPodInfo s st podName =
     (case podLister s podName of
        None \<Rightarrow> ([], [], False)
      | Some nodeName \<Rightarrow>
          (case NodeToZoneMap st nodeName of
             None \<Rightarrow> ([], nodeName, False)
           | Some zoneName \<Rightarrow> (zoneName, nodeName, True)))"

definition zoneOf :: "StatefulSetScheduler \<Rightarrow> State \<Rightarrow> string \<Rightarrow> string" where
  "zoneOf s st podName = fst (getPodInfo s st podName)"

definition nodeOf :: "StatefulSetScheduler \<Rightarrow> State \<Rightarrow> string \<Rightarrow> string" where
  "nodeOf s st podName = fst (snd (getPodInfo s st podName))"

definition appendOrdinal :: "(string \<times> nat list) list \<Rightarrow> string \<Rightarrow> nat \<Rightarrow> (string \<times> nat list) list"
  where
  "appendOrdinal m domainName ordinal =
     AList.update domainName
       ((case map_of m domainName of None \<Rightarrow> [] | Some ordinals \<Rightarrow> ordinals) @ [ordinal]) m"

definition getPlacementsByZoneKey ::
  "StatefulSetScheduler \<Rightarrow> State \<Rightarrow> Placement list \<Rightarrow> (string \<times> nat list) list" where
  "getPlacementsByZoneKey s st placements =
     foldl (\<lambda>m p. appendOrdinal m (zoneOf s st (PodName p)) (OrdinalFromPodName (PodName p)))
       [] placements"

definition getPlacementsByNodeKey ::
  "StatefulSetScheduler \<Rightarrow> State \<Rightarrow> Placement list \<Rightarrow> (string \<times> nat list) list" where
  "getPlacementsByNodeKey s st placements =
     foldl (\<lambda>m p. appendOrdinal m (nodeOf s st (PodName p)) (OrdinalFromPodName (PodName p)))
       [] placements"

definition getTotalVReplicasInZone ::
  "StatefulSetScheduler \<Rightarrow> State \<Rightarrow> Placement list \<Rightarrow> string \<Rightarrow> int" where
  "getTotalVReplicasInZone s st placements zoneName =
     sum_list (map VReplicas (filter (\<lambda>p. zoneOf s st (PodName p) = zoneName) placements))"

definition getTotalVReplicasInNode ::
  "StatefulSetScheduler \<Rightarrow> State \<Rightarrow> Placement list \<Rightarrow> string \<Rightarrow> int" where
  "getTotalVReplicasInNode s st placements nodeName =
     sum_list (map VReplicas (filter (\<lambda>p. nodeOf s st (PodName p) = nodeName) placements))"

text \<open>The first placement with the pod name of the ordinal, the zero placement if none.\<close>

definition getPlacementFromPodOrdinal ::
  "StatefulSetScheduler \<Rightarrow> Placement list \<Rightarrow> nat \<Rightarrow> Placement" where
  "getPlacementFromPodOrdinal s placements ordinal =
     (case find (\<lambda>p. PodName p = PodNameFromOrdinal (statefulSetName s) ordinal) placements of
        None \<Rightarrow> \<lparr>PodName = [], VReplicas = 0\<rparr>
      | Some p \<Rightarrow> p)"

definition placementsByDomain ::
  "StatefulSetScheduler \<Rightarrow> State \<Rightarrow> Placement list \<Rightarrow> (string \<times> nat list) list" where
  "placementsByDomain s st placements =
     (if SchedulerPolicy st = EVENSPREAD_BYNODE then getPlacementsByNodeKey s st placements
      else getPlacementsByZoneKey s st placements)"

definition totalInDomain ::
  "StatefulSetScheduler \<Rightarrow> State \<Rightarrow> Placement list \<Rightarrow> string \<Rightarrow> int" where
  "totalInDomain s st placements domainName =
     (if SchedulerPolicy st = EVENSPREAD_BYNODE then getTotalVReplicasInNode s st placements domainName
      else getTotalVReplicasInZone s st placements domainName)"

text \<open>The inner loop of \<^verbatim>\<open>addToExistingReplicas\<close>, over the ordinals of one domain.\<close>

fun addToExistingInDomain ::
  "StatefulSetScheduler \<Rightarrow> Placement list \<Rightarrow> int \<Rightarrow> nat list \<Rightarrow>
   Placement list \<times> int \<times> State \<times> int \<Rightarrow> (Placement list \<times> int \<times> State \<times> int) option" where
  "addToExistingInDomain s placements evenSpread [] a = Some a"
| "addToExistingInDomain s placements evenSpread (ordinal # ordinals)
     (newPlacements, diff, st, tot) =
     (let placement = getPlacementFromPodOrdinal s placements ordinal;
          f = Free st ordinal
      in if diff \<ge> 0 \<and> f > 0 \<and> tot < evenSpread then
           (let allocation = min diff (min f (evenSpread - tot))
            in case SetFree st ordinal (f - allocation) of
                 None \<Rightarrow> None
               | Some st' \<Rightarrow>
                   addToExistingInDomain s placements evenSpread ordinals
                     (newPlacements @
                        [\<lparr>PodName = PodName placement,
                          VReplicas = VReplicas placement + allocation\<rparr>],
                      diff - allocation, st', tot + allocation))
         else addToExistingInDomain s placements evenSpread ordinals
                (newPlacements @ [placement], diff, st, tot))"

text \<open>
  The outer loop, over the sorted domain names; \<open>byDomain\<close> is the grouping of the
  placements. The total of a domain is taken over the placements the call was given.
\<close>

fun addToExistingDomains ::
  "StatefulSetScheduler \<Rightarrow> Placement list \<Rightarrow> int \<Rightarrow> (string \<times> nat list) list \<Rightarrow>
   string list \<Rightarrow> Placement list \<times> int \<times> State \<Rightarrow> (Placement list \<times> int \<times> State) option" where
  "addToExistingDomains s placements evenSpread byDomain [] a = Some a"
| "addToExistingDomains s placements evenSpread byDomain (domainName # domainNames)
     (newPlacements, diff, st) =
     (case addToExistingInDomain s placements evenSpread
             (case map_of byDomain domainName of None \<Rightarrow> [] | Some ordinals \<Rightarrow> ordinals)
             (newPlacements, diff, st, totalInDomain s st placements domainName) of
        None \<Rightarrow> None
      | Some (newPlacements', diff', st', tot') \<Rightarrow>
          addToExistingDomains s placements evenSpread byDomain domainNames
            (newPlacements', diff', st'))"

definition addToExistingReplicas ::
  "StatefulSetScheduler \<Rightarrow> State \<Rightarrow> int \<Rightarrow> Placement list \<Rightarrow> int \<Rightarrow>
   (Placement list \<times> int \<times> State) option"
  where
  "addToExistingReplicas s st diff placements evenSpread =
     (let byDomain = placementsByDomain s st placements;
          domainNames = sort (map fst byDomain)
      in addToExistingDomains s placements evenSpread byDomain domainNames ([], diff, st))"

text \<open>
  \<^verbatim>\<open>addToNewReplicas\<close>: a \<^verbatim>\<open>continue\<close> goes to the next ordinal without the test that
  leaves the loop when nothing is left to place.
\<close>

fun addToNewReplicas ::
  "StatefulSetScheduler \<Rightarrow> int \<Rightarrow> nat list \<Rightarrow> Placement list \<times> int \<times> State \<Rightarrow>
   (Placement list \<times> int \<times> State) option" where
  "addToNewReplicas s evenSpread [] a = Some a"
| "addToNewReplicas s evenSpread (ordinal # ordinals) (newPlacements, diff, st) =
     (let f = Free st ordinal in
      if f > 0 then
        (let podName = PodNameFromOrdinal (statefulSetName s) ordinal in
         case getPodInfo s st podName of
           (zoneName, nodeName, ok) \<Rightarrow>
             if \<not> ok then addToNewReplicas s evenSpread ordinals (newPlacements, diff, st)
             else
               (let tot = (if SchedulerPolicy st = EVENSPREAD_BYNODE
                             then getTotalVReplicasInNode s st newPlacements nodeName
                             else getTotalVReplicasInZone s st newPlacements zoneName)
                in if tot \<ge> evenSpread
                   then addToNewReplicas s evenSpread ordinals (newPlacements, diff, st)
                   else
                     (let allocation = min diff (min f (evenSpread - tot))
                      in case SetFree st ordinal (f - allocation) of
                           None \<Rightarrow> None
                         | Some st' \<Rightarrow>
                             (let a = (newPlacements @
                                         [\<lparr>PodName = podName, VReplicas = allocation\<rparr>],
                                       diff - allocation, st')
                              in if diff - allocation = 0 then Some a
                                 else addToNewReplicas s evenSpread ordinals a))))
      else if diff = 0 then Some (newPlacements, diff, st)
      else addToNewReplicas s evenSpread ordinals (newPlacements, diff, st))"

definition addReplicasEvenSpread ::
  "StatefulSetScheduler \<Rightarrow> State \<Rightarrow> int \<Rightarrow> Placement list \<Rightarrow> int \<Rightarrow>
   (Placement list \<times> int) option" where
  "addReplicasEvenSpread s st diff placements evenSpread =
     (case addToExistingReplicas s st diff placements evenSpread of
        None \<Rightarrow> None
      | Some (newPlacements, diff1, st1) \<Rightarrow>
          if diff1 > 0 then
            (case addToNewReplicas s evenSpread [0..<nat (replicas s)]
                    (newPlacements, diff1, st1) of
               None \<Rightarrow> None
             | Some (newPlacements2, diff2, st2) \<Rightarrow> Some (newPlacements2, diff2))
          else Some (newPlacements, diff1))"

text \<open>The inner loop of \<^verbatim>\<open>removeFromExistingReplicas\<close>; it is given the ordinals reversed.\<close>

fun removeFromDomain ::
  "StatefulSetScheduler \<Rightarrow> Placement list \<Rightarrow> int \<Rightarrow> nat list \<Rightarrow>
   Placement list \<times> int \<times> int \<Rightarrow> Placement list \<times> int \<times> int" where
  "removeFromDomain s placements evenSpread [] a = a"
| "removeFromDomain s placements evenSpread (ordinal # ordinals) (newPlacements, diff, tot) =
     (let placement = getPlacementFromPodOrdinal s placements ordinal in
      if diff > 0 \<and> tot \<ge> evenSpread then
        (let deallocation = min diff (min (VReplicas placement) (tot - evenSpread)) in
         if deallocation > 0 \<and> deallocation < VReplicas placement then
           removeFromDomain s placements evenSpread ordinals
             (newPlacements @
                [\<lparr>PodName = PodName placement, VReplicas = VReplicas placement - deallocation\<rparr>],
              diff - deallocation, tot - deallocation)
         else if deallocation \<ge> VReplicas placement then
           removeFromDomain s placements evenSpread ordinals
             (newPlacements, diff - VReplicas placement, tot - VReplicas placement)
         else
           removeFromDomain s placements evenSpread ordinals
             (newPlacements @ [\<lparr>PodName = PodName placement, VReplicas = VReplicas placement\<rparr>],
              diff, tot))
      else
        removeFromDomain s placements evenSpread ordinals
          (newPlacements @ [\<lparr>PodName = PodName placement, VReplicas = VReplicas placement\<rparr>],
           diff, tot))"

fun removeFromDomains ::
  "StatefulSetScheduler \<Rightarrow> State \<Rightarrow> Placement list \<Rightarrow> int \<Rightarrow> (string \<times> nat list) list \<Rightarrow>
   string list \<Rightarrow> Placement list \<times> int \<Rightarrow> Placement list \<times> int" where
  "removeFromDomains s st placements evenSpread byDomain [] a = a"
| "removeFromDomains s st placements evenSpread byDomain (domainName # domainNames)
     (newPlacements, diff) =
     (case removeFromDomain s placements evenSpread
             (rev (case map_of byDomain domainName of None \<Rightarrow> [] | Some ordinals \<Rightarrow> ordinals))
             (newPlacements, diff, totalInDomain s st placements domainName) of
        (newPlacements', diff', tot') \<Rightarrow>
          removeFromDomains s st placements evenSpread byDomain domainNames
            (newPlacements', diff'))"

definition removeReplicasEvenSpread ::
  "StatefulSetScheduler \<Rightarrow> State \<Rightarrow> int \<Rightarrow> Placement list \<Rightarrow> int \<Rightarrow> Placement list" where
  "removeReplicasEvenSpread s st diff placements evenSpread =
     (let byDomain = placementsByDomain s st placements;
          domainNames = sort (map fst byDomain)
      in fst (removeFromDomains s st placements evenSpread byDomain domainNames ([], diff)))"

text \<open>
  \<^verbatim>\<open>int32(math.Floor(float64(a) / float64(b)))\<close> and the same with \<^verbatim>\<open>math.Ceil\<close>: the
  quotient of two \<^verbatim>\<open>int32\<close> values is rounded by \<^verbatim>\<open>float64\<close> to a number with the same
  floor and ceiling, and it is not finite when \<open>b\<close> is 0.
\<close>

definition floorQuotient :: "Env \<Rightarrow> int \<Rightarrow> int \<Rightarrow> int" where
  "floorQuotient env a b = (if b = 0 then int32OfNonFinite env a else a div b)"

definition ceilQuotient :: "Env \<Rightarrow> int \<Rightarrow> int \<Rightarrow> int" where
  "ceilQuotient env a b = (if b = 0 then int32OfNonFinite env a else - ((- a) div b))"

subsubsection \<open>Predicates and priorities\<close>

definition Message :: "Status \<Rightarrow> string" where
  "Message st =
     (case reasons st of [] \<Rightarrow> [] | r # rs \<Rightarrow> foldl (\<lambda>joined x. joined @ '', '' @ x) r rs)"

text \<open>
  \<^verbatim>\<open>RunFilterPlugins\<close> answers at the first plugin that does not succeed, with that
  plugin's entry alone; a predicate the registry does not know is passed over.
\<close>

fun RunFilterPlugins :: "Env \<Rightarrow> string list \<Rightarrow> State \<Rightarrow> nat \<Rightarrow> (string \<times> Status) list" where
  "RunFilterPlugins env [] states podID = []"
| "RunFilterPlugins env (name # names) states podID =
     (case GetFilterPlugin env name of
        None \<Rightarrow> RunFilterPlugins env names states podID
      | Some pl \<Rightarrow>
          (let pluginStatus = Filter pl states podID in
           if \<not> IsSuccess pluginStatus then
             (if \<not> IsUnschedulable pluginStatus then
                [(FilterName pl,
                  NewStatus Error [filterErrorText env (FilterName pl) podID (Message pluginStatus)])]
              else [(FilterName pl, pluginStatus)])
           else RunFilterPlugins env names states podID))"

definition codeRank :: "Code \<Rightarrow> nat" where
  "codeRank c = (case c of Success \<Rightarrow> 0 | Unschedulable \<Rightarrow> 1 | Error \<Rightarrow> 2)"

text \<open>\<^verbatim>\<open>PluginToStatus.Merge\<close>; \<open>None\<close> is the nil status, which counts as a success.\<close>

definition Merge :: "(string \<times> Status) list \<Rightarrow> Status option" where
  "Merge p =
     (if length p = 0 then None
      else Some (foldl (\<lambda>finalStatus (name, st).
                   \<lparr>code = (if codeRank (code st) > codeRank (code finalStatus) then code st
                            else code finalStatus),
                    reasons = reasons finalStatus @ reasons st\<rparr>)
                 (NewStatus Success []) p))"

definition IsSuccessPtr :: "Status option \<Rightarrow> bool" where
  "IsSuccessPtr st = (case st of None \<Rightarrow> True | Some st' \<Rightarrow> IsSuccess st')"

definition findFeasiblePods ::
  "Env \<Rightarrow> SchedulerPolicyCfg \<Rightarrow> StatefulSetScheduler \<Rightarrow> State \<Rightarrow> nat list" where
  "findFeasiblePods env pol s st =
     filter (\<lambda>podId. IsSuccessPtr (Merge (RunFilterPlugins env (Predicates pol) st podId)))
       [0..<nat (replicas s)]"

text \<open>The scores of one plugin for the feasible pods, \<open>Inl\<close> the first status that is no success.\<close>

fun scorePods ::
  "ScorePlugin \<Rightarrow> int \<Rightarrow> State \<Rightarrow> nat list \<Rightarrow> (nat \<times> Status) + (nat \<times> int) list" where
  "scorePods pl weight states [] = Inr []"
| "scorePods pl weight states (podID # podIDs) =
     (case Score pl states podID of
        (score, pluginStatus) \<Rightarrow>
          if \<not> IsSuccess pluginStatus then Inl (podID, pluginStatus)
          else (case scorePods pl weight states podIDs of
                  Inl e \<Rightarrow> Inl e
                | Inr scores \<Rightarrow> Inr ((podID, score * weight) # scores)))"

text \<open>
  \<^verbatim>\<open>RunScorePlugins\<close>: the scores are stored under the name of the plugin, so that of two
  priorities with the same plugin the later one stays.
\<close>

fun RunScorePlugins ::
  "Env \<Rightarrow> PriorityPolicy list \<Rightarrow> State \<Rightarrow> nat list \<Rightarrow> (string \<times> (nat \<times> int) list) list \<Rightarrow>
   (string \<times> (nat \<times> int) list) list \<times> Status" where
  "RunScorePlugins env [] states feasiblePods pluginToPodScores =
     (pluginToPodScores, NewStatus Success [])"
| "RunScorePlugins env (plugin # plugins) states feasiblePods pluginToPodScores =
     (case GetScorePlugin env (PriorityName plugin) of
        None \<Rightarrow> RunScorePlugins env plugins states feasiblePods pluginToPodScores
      | Some pl \<Rightarrow>
          (case scorePods pl (Weight plugin) states feasiblePods of
             Inl (podID, pluginStatus) \<Rightarrow>
               (pluginToPodScores,
                NewStatus Error [scoreErrorText env (ScoreName pl) podID (Message pluginStatus)])
           | Inr scores \<Rightarrow>
               RunScorePlugins env plugins states feasiblePods
                 (AList.update (ScoreName pl) scores pluginToPodScores)))"

text \<open>\<^verbatim>\<open>prioritizePods\<close>; \<open>None\<close> is its error.\<close>

definition prioritizePods ::
  "Env \<Rightarrow> SchedulerPolicyCfg \<Rightarrow> State \<Rightarrow> nat list \<Rightarrow> (nat \<times> int) list option" where
  "prioritizePods env pol states feasiblePods =
     (if \<not> length (Priorities pol) > 0 then Some (map (\<lambda>podID. (podID, 1)) feasiblePods)
      else (case RunScorePlugins env (Priorities pol) states feasiblePods [] of
              (scoresMap, scoreStatus) \<Rightarrow>
                if \<not> IsSuccess scoreStatus then None
                else Some (map (\<lambda>i. (feasiblePods ! i,
                                       sum_list (map (\<lambda>(name, scores). snd (scores ! i)) scoresMap)))
                             [0..<length feasiblePods])))"

fun selectPodLoop ::
  "Env \<Rightarrow> (nat \<times> int) list \<Rightarrow> int \<times> nat \<times> nat \<times> nat \<Rightarrow> int \<times> nat \<times> nat \<times> nat" where
  "selectPodLoop env [] a = a"
| "selectPodLoop env ((podID, score) # podScores) (maxScore, selected, cntOfMaxScore, calls) =
     (if score > maxScore then selectPodLoop env podScores (score, podID, 1, calls)
      else if score = maxScore then
        (if randDraws env calls mod (cntOfMaxScore + 1) = 0
         then selectPodLoop env podScores (maxScore, podID, cntOfMaxScore + 1, calls + 1)
         else selectPodLoop env podScores (maxScore, selected, cntOfMaxScore + 1, calls + 1))
      else selectPodLoop env podScores (maxScore, selected, cntOfMaxScore, calls))"

text \<open>\<^verbatim>\<open>selectPod\<close>; \<open>None\<close> is the error for an empty list.\<close>

definition selectPod ::
  "Env \<Rightarrow> StatefulSetScheduler \<Rightarrow> (nat \<times> int) list \<Rightarrow> nat option \<times> StatefulSetScheduler" where
  "selectPod env s podScoreList =
     (case podScoreList of
        [] \<Rightarrow> (None, s)
      | (podID, score) # podScores \<Rightarrow>
          (case selectPodLoop env podScores (score, podID, 1, randCalls s) of
             (maxScore, selected, cntOfMaxScore, calls) \<Rightarrow> (Some selected, s\<lparr>randCalls := calls\<rparr>)))"

text \<open>
  \<^verbatim>\<open>addSelectionToPlacements\<close>: the vreplicas of every placement on a selected pod are
  raised in place; \<^verbatim>\<open>seen\<close> is declared before the loop over the selected pods.
\<close>

fun addSelectionLoop ::
  "string \<Rightarrow> VPod \<Rightarrow> (nat \<times> int) list \<Rightarrow> bool \<Rightarrow> Placement list option \<times> sharing \<Rightarrow>
   Placement list option \<times> sharing" where
  "addSelectionLoop name vpod [] seen ps = ps"
| "addSelectionLoop name vpod ((podID, newreps) # selected) seen (content, sh) =
     (let seen' = (seen \<or> list_ex (\<lambda>p. podID = OrdinalFromPodName (PodName p)) (elems content));
          content' = map_option
                       (map (\<lambda>p. if podID = OrdinalFromPodName (PodName p)
                                  then p\<lparr>VReplicas := VReplicas p + newreps\<rparr> else p)) content
      in if \<not> seen' then
           addSelectionLoop name vpod selected seen'
             (appendPlacement vpod (content', sh)
                \<lparr>PodName = PodNameFromOrdinal name podID, VReplicas = newreps\<rparr>)
         else addSelectionLoop name vpod selected seen' (content', sh))"

definition addSelectionToPlacements ::
  "StatefulSetScheduler \<Rightarrow> VPod \<Rightarrow> (nat \<times> int) list \<Rightarrow> Placement list option \<times> sharing \<Rightarrow>
   Placement list option \<times> sharing" where
  "addSelectionToPlacements s vpod selectedPodIDsToVreps ps =
     addSelectionLoop (statefulSetName s) vpod selectedPodIDsToVreps False ps"

text \<open>\<^verbatim>\<open>reservePlacements\<close> against what the vpod's slice holds when it is called.\<close>

definition reserveCurrent ::
  "VPod \<Rightarrow> Placement list option \<times> sharing \<Rightarrow> StatefulSetScheduler \<Rightarrow> StatefulSetScheduler" where
  "reserveCurrent vpod ps s =
     reservePlacements vpod (existingView vpod (snd ps) (elems (fst ps))) (elems (fst ps)) s"

text \<open>
  The loop of \<^verbatim>\<open>addReplicasWithPolicy\<close>, one vreplica at a time, from the index \<open>i\<close> on.
  \<^verbatim>\<open>findFeasiblePods\<close> has no error to answer. The vpod that is scheduled is not
  one of the objects the state accessor reads.
\<close>

function addReplicasWithPolicyLoop ::
  "Env \<Rightarrow> SchedulerPolicyCfg \<Rightarrow> VPod \<Rightarrow> int \<Rightarrow> int \<Rightarrow>
   int \<times> (Placement list option \<times> sharing) \<times> StatefulSetScheduler \<Rightarrow>
   (int \<times> (Placement list option \<times> sharing) \<times> StatefulSetScheduler) option" where
  "addReplicasWithPolicyLoop env pol vpod numVreps i (diff, ps, s) =
     (if \<not> i < numVreps then Some (diff, ps, s)
      else
        (case stateAccessor s (reserved s) of
           None \<Rightarrow> None
         | Some (Inl err, res) \<Rightarrow> Some (diff, ps, s\<lparr>reserved := res\<rparr>)
         | Some (Inr st, res) \<Rightarrow>
             (let s1 = s\<lparr>reserved := res\<rparr> in
              if replicas s1 = 0 then Some (numVreps - i, ps, reserveCurrent vpod ps s1)
              else
                (let feasiblePods = findFeasiblePods env pol s1 st in
                 if length feasiblePods = 0
                 then Some (numVreps - i, ps, reserveCurrent vpod ps s1)
                 else if length feasiblePods = 1 then
                   (let ps' = addSelectionToPlacements s1 vpod [(feasiblePods ! 0, 1)] ps in
                    addReplicasWithPolicyLoop env pol vpod numVreps (i + 1)
                      (diff - 1, ps', reserveCurrent vpod ps' s1))
                 else
                   (case prioritizePods env pol st feasiblePods of
                      None \<Rightarrow> Some (numVreps - i, ps, reserveCurrent vpod ps s1)
                    | Some priorityList \<Rightarrow>
                        (case selectPod env s1 priorityList of
                           (None, s2) \<Rightarrow> Some (numVreps - i, ps, reserveCurrent vpod ps s2)
                         | (Some placementPodID, s2) \<Rightarrow>
                             (let ps' = addSelectionToPlacements s2 vpod [(placementPodID, 1)] ps in
                              addReplicasWithPolicyLoop env pol vpod numVreps (i + 1)
                                (diff - 1, ps', reserveCurrent vpod ps' s2))))))))"
  by pat_completeness auto
termination
  by (relation "measure (\<lambda>(env, pol, vpod, numVreps, i, a). nat (numVreps - i))") auto

declare addReplicasWithPolicyLoop.simps [simp del]

definition addReplicasWithPolicy ::
  "Env \<Rightarrow> SchedulerPolicyCfg \<Rightarrow> VPod \<Rightarrow> int \<Rightarrow> Placement list option \<times> sharing \<Rightarrow>
   StatefulSetScheduler \<Rightarrow>
   (int \<times> (Placement list option \<times> sharing) \<times> StatefulSetScheduler) option" where
  "addReplicasWithPolicy env pol vpod diff ps s =
     addReplicasWithPolicyLoop env pol vpod diff 0 (diff, ps, s)"

subsubsection \<open>Schedule\<close>

text \<open>The end of \<^verbatim>\<open>scheduleVPod\<close>, from the test of what is left to place.\<close>

definition finishScheduling ::
  "VPod \<Rightarrow> Placement list option \<times> sharing \<Rightarrow> int \<Rightarrow> StatefulSetScheduler \<Rightarrow>
   (Placement list option \<times> sharing) \<times> error option \<times> StatefulSetScheduler" where
  "finishScheduling vpod ps left s =
     (if left > 0 then
        (let s1 = s\<lparr>pending := AList.update (GetKey vpod) left (pending s)\<rparr>;
             s2 = (if autoscaler s1
                   then s1\<lparr>autoscaleCalls := autoscaleCalls s1 @ [pendingVReplicas s1]\<rparr>
                   else s1)
         in (ps, Some ErrNotEnoughReplicas, s2))
      else (ps, None, s\<lparr>pending := AList.delete (GetKey vpod) (pending s)\<rparr>))"

definition scheduleVPod ::
  "Env \<Rightarrow> StatefulSetScheduler \<Rightarrow> VPod \<Rightarrow>
   ((Placement list option \<times> sharing) \<times> error option \<times> StatefulSetScheduler) option" where
  "scheduleVPod env s vpod =
     (case stateAccessor s (reserved s) of
        None \<Rightarrow> None
      | Some (Inl err, res) \<Rightarrow>
          Some ((None, Detached (elems (GetPlacements vpod))), Some err, s\<lparr>reserved := res\<rparr>)
      | Some (Inr st, res) \<Rightarrow>
          (let s1 = s\<lparr>reserved := res\<rparr>;
               placements = elems (GetPlacements vpod);
               own = (GetPlacements vpod, Shared (PlacementsSpare vpod));
               detached = Detached placements;
               tr = GetTotalVReplicas placements
           in
           if tr = GetVReplicas vpod then
             Some (own, None, s1\<lparr>pending := AList.delete (GetKey vpod) (pending s1)\<rparr>)
           else if SchedulerPolicy st \<noteq> [] then
             (if tr > GetVReplicas vpod then
                (if SchedulerPolicy st = EVENSPREAD \<or> SchedulerPolicy st = EVENSPREAD_BYNODE then
                   (let spreadVal =
                          (if SchedulerPolicy st = EVENSPREAD
                           then floorQuotient env (GetVReplicas vpod) (NumZones st)
                           else floorQuotient env (GetVReplicas vpod) (NumNodes st))
                    in Some ((Some (removeReplicasEvenSpread s1 st (tr - GetVReplicas vpod)
                                      placements spreadVal), detached), None, s1))
                 else Some ((Some (removeReplicas (tr - GetVReplicas vpod) placements), detached),
                            None, s1))
              else if SchedulerPolicy st = EVENSPREAD \<or> SchedulerPolicy st = EVENSPREAD_BYNODE then
                (let spreadVal =
                       (if SchedulerPolicy st = EVENSPREAD
                        then ceilQuotient env (GetVReplicas vpod) (NumZones st)
                        else ceilQuotient env (GetVReplicas vpod) (NumNodes st))
                 in case addReplicasEvenSpread s1 st (GetVReplicas vpod - tr) placements spreadVal of
                      None \<Rightarrow> None
                    | Some (newPlacements, left) \<Rightarrow>
                        Some (finishScheduling vpod (Some newPlacements, detached) left s1))
              else
                (case addReplicas s1 st (GetVReplicas vpod - tr) placements of
                   None \<Rightarrow> None
                 | Some (newPlacements, left) \<Rightarrow>
                     Some (finishScheduling vpod (Some newPlacements, detached) left s1)))
           else
             (case policy s1 of
                Some pol \<Rightarrow>
                  if ValidatePolicy (MaxTotalWeight env) pol \<noteq> [] then
                    Some ((None, detached), Some ErrValidatingPolicy, s1)
                  else
                    (case addReplicasWithPolicy env pol vpod (GetVReplicas vpod - tr) own s1 of
                       None \<Rightarrow> None
                     | Some (left, ps, s2) \<Rightarrow> Some (finishScheduling vpod ps left s2))
              | None \<Rightarrow> Some (finishScheduling vpod own 0 s1))))"

text \<open>
  \<^verbatim>\<open>Schedule\<close>: the placements and the error it returns, and the scheduler afterwards.
  The stable sort works in the array of the slice, which may be the vpod's own.
\<close>

definition Schedule ::
  "Env \<Rightarrow> StatefulSetScheduler \<Rightarrow> VPod \<Rightarrow>
   ((Placement list option \<times> error option) \<times> StatefulSetScheduler) option" where
  "Schedule env s vpod =
     (case scheduleVPod env s vpod of
        None \<Rightarrow> None
      | Some ((placements, sh), err, s1) \<Rightarrow>
          (case placements of
             None \<Rightarrow> Some ((None, err), s1)
           | Some ps \<Rightarrow>
               (let sorted = sort_key (\<lambda>p. OrdinalFromPodName (PodName p)) ps
                in Some ((Some sorted, err),
                         reservePlacements vpod (existingView vpod sh sorted) sorted s1))))"

subsection \<open>Concrete inputs\<close>

text \<open>
  A cluster in the style of the repository's tests, used where a statement is evaluated:
  pods \<^verbatim>\<open>pool-0\<close>, \<^verbatim>\<open>pool-1\<close>, ... of capacity 10, the pod of ordinal \<open>n\<close> on the node
  \<^verbatim>\<open>node-(n mod 3)\<close>, three nodes in three zones, the registry holding the filter
  PodFitsResources, and a state accessor that is the state builder over the given vpods.
\<close>

definition exampleEnv :: Env where
  "exampleEnv =
     \<lparr>MaxTotalWeight = 9223372036854775807,
      GetFilterPlugin =
        [''PodFitsResources'' \<mapsto>
           \<lparr>FilterName = ''PodFitsResources'', Filter = PodFitsResources_Filter\<rparr>],
      GetScorePlugin = Map.empty,
      randDraws = (\<lambda>k. 0),
      int32OfNonFinite = (\<lambda>a. 0),
      filterErrorText = (\<lambda>name podID message. message),
      scoreErrorText = (\<lambda>name podID message. message)\<rparr>"

definition exampleBuilder :: "string \<Rightarrow> VPod list \<Rightarrow> stateBuilder" where
  "exampleBuilder policyType vpods =
     \<lparr>vpodLister = Inr vpods, capacity = 10, schedulerPolicy = policyType,
      nodeLister = Inr [\<lparr>NodeName = ''node-0'', NodeUnschedulable = False, NodeZone = Some ''zone-0''\<rparr>,
                        \<lparr>NodeName = ''node-1'', NodeUnschedulable = False, NodeZone = Some ''zone-1''\<rparr>,
                        \<lparr>NodeName = ''node-2'', NodeUnschedulable = False, NodeZone = Some ''zone-2''\<rparr>]\<rparr>"

definition exampleScheduler :: "string \<Rightarrow> int \<Rightarrow> VPod list \<Rightarrow> StatefulSetScheduler" where
  "exampleScheduler policyType n vpods =
     \<lparr>statefulSetName = ''pool'',
      podLister = (\<lambda>podName. Some (''node-'' @ Itoa (OrdinalFromPodName podName mod 3))),
      stateAccessor = State_build (exampleBuilder policyType vpods),
      autoscaler = True, replicas = n, pending = [], reserved = [], policy = None,
      autoscaleCalls = [], randCalls = 0\<rparr>"

definition exampleVPod :: "int \<Rightarrow> (string \<times> int) list \<Rightarrow> VPod" where
  "exampleVPod desired ps =
     \<lparr>GetKey = (''ns'', ''vpod''), GetVReplicas = desired,
      GetPlacements = Some (map (\<lambda>(podName, n). \<lparr>PodName = podName, VReplicas = n\<rparr>) ps),
      PlacementsSpare = 0\<rparr>"

text \<open>The key by which \<^verbatim>\<open>Schedule\<close> sorts.\<close>

definition ordKey :: "Placement \<Rightarrow> nat" where
  "ordKey p = OrdinalFromPodName (PodName p)"

section \<open>Properties\<close>

subsection \<open>Pod names and ordinals\<close>

lemma digitChar_props:
  assumes "d < 10"
  shows "isDigit (digitChar d)" "digitVal (digitChar d) = d" "digitChar d \<noteq> CHR ''-''"
proof -
  from assms have "d \<in> {0, 1, 2, 3, 4, 5, 6, 7, 8, 9}" by auto
  then show "isDigit (digitChar d)" "digitVal (digitChar d) = d" "digitChar d \<noteq> CHR ''-''"
    by (auto simp: digitChar_def isDigit_def digitVal_def)
qed

lemma Itoa_digits: "list_all isDigit (Itoa n) \<and> Itoa n \<noteq> [] \<and> CHR ''-'' \<notin> set (Itoa n)"
proof (induction n rule: Itoa.induct)
  case (1 n)
  show ?case
  proof (cases "n < 10")
    case True
    then show ?thesis
      using digitChar_props [of n] by (simp add: Itoa.simps [of n])
  next
    case False
    have "n mod 10 < 10" by simp
    with False 1 show ?thesis
      using digitChar_props [of "n mod 10"] by (auto simp add: Itoa.simps [of n])
  qed
qed

lemma Itoa_no_plus: "hd (Itoa n) \<noteq> CHR ''+''"
proof -
  have "isDigit (hd (Itoa n))"
    using Itoa_digits [of n] by (cases "Itoa n") auto
  then show ?thesis by (auto simp: isDigit_def)
qed

lemma Itoa_value: "foldl (\<lambda>acc c. 10 * acc + digitVal c) 0 (Itoa n) = n"
proof (induction n rule: Itoa.induct)
  case (1 n)
  show ?case
  proof (cases "n < 10")
    case True
    then show ?thesis
      using digitChar_props [of n] by (simp add: Itoa.simps [of n])
  next
    case False
    have "n mod 10 < 10" by simp
    with False 1 show ?thesis
      using digitChar_props [of "n mod 10"] by (simp add: Itoa.simps [of n])
  qed
qed

lemma ParseInt_Itoa: "n \<le> MaxInt32 \<Longrightarrow> ParseInt (Itoa n) = Some n"
  using Itoa_digits [of n] Itoa_no_plus [of n] Itoa_value [of n]
  by (cases "Itoa n") (auto simp: ParseInt_def Let_def)

lemma afterLastDash_PodName: "afterLastDash (PodNameFromOrdinal name n) = Itoa n"
proof -
  have "takeWhile (\<lambda>c. c \<noteq> CHR ''-'') (rev (Itoa n) @ CHR ''-'' # rev name) = rev (Itoa n)"
    using Itoa_digits [of n] by (intro takeWhile_tail [THEN trans]) auto
  then show ?thesis
    by (simp add: afterLastDash_def PodNameFromOrdinal_def)
qed

lemma OrdinalFromPodName_inverse:
  "n \<le> MaxInt32 \<Longrightarrow> OrdinalFromPodName (PodNameFromOrdinal name n) = n"
  by (simp add: OrdinalFromPodName_def afterLastDash_PodName ParseInt_Itoa)

lemma OrdinalFromPodName_le: "OrdinalFromPodName podName \<le> MaxInt32"
  by (auto simp: OrdinalFromPodName_def ParseInt_def Let_def split: option.splits if_splits list.splits)

subsection \<open>Reservations in the state builder\<close>


lemma withReserved_absent:
  "reservedFor res key podName = None \<Longrightarrow>
   withReserved key podName committed res = (committed, res)"
  by (auto simp: withReserved_def reservedFor_def split: option.splits)






lemma accReserved_tuple [simp]: "accReserved (free, lastOrd, res, wp) = res"
  by (simp add: accReserved_def)












subsection \<open>Growing the free-capacity slice\<close>

lemma int32_id: "- 2147483648 \<le> x \<Longrightarrow> x < 2147483648 \<Longrightarrow> int32 x = x"
  by (simp add: int32_def)

lemma int32_wrap: "int32 2147483648 = - 2147483648"
  by (simp add: int32_def)

lemma replicate_numeral_eval:
  "replicate (numeral k) x = x # replicate (pred_numeral k) x"
  by (simp add: numeral_eq_Suc)

lemma grow_prefix: "\<exists>k. grow slice ordinal d = slice @ replicate k d"
proof (cases "int32 (int32 (int ordinal - int32 (int (length slice))) + 1) \<le> 0")
  case True
  then have "grow slice ordinal d = slice @ replicate 0 d" by (simp add: grow_def Let_def)
  then show ?thesis by blast
next
  case False
  then show ?thesis by (auto simp: grow_def Let_def)
qed

lemma grow_within:
  assumes "ordinal < length slice"
  shows "ordinal < length (grow slice ordinal d)" "grow slice ordinal d ! ordinal = slice ! ordinal"
  using grow_prefix [of slice ordinal d] assms by (auto simp: nth_append)

lemma grow_beyond:
  assumes "length slice \<le> ordinal" and "ordinal \<le> MaxInt32"
    and "\<not> (slice = [] \<and> ordinal = MaxInt32)"
  shows "grow slice ordinal d = slice @ replicate (ordinal + 1 - length slice) d"
proof -
  have l: "int32 (int (length slice)) = int (length slice)"
    using assms(1,2) by (intro int32_id) (simp_all add: MaxInt32_def)
  have 1: "int32 (int ordinal - int (length slice)) = int ordinal - int (length slice)"
    using assms(1,2) by (intro int32_id) (simp_all add: MaxInt32_def)
  have lt: "int ordinal - int (length slice) + 1 < 2147483648"
    using assms by (cases slice) (auto simp: MaxInt32_def)
  have 2: "int32 (int ordinal - int (length slice) + 1) = int ordinal - int (length slice) + 1"
    using assms(1) lt by (intro int32_id) simp_all
  have "nat (int ordinal - int (length slice) + 1) = ordinal + 1 - length slice"
    using assms(1) by simp
  then show ?thesis using assms(1) by (simp add: grow_def Let_def l 1 2)
qed

lemma grow_sentinel: "grow [] MaxInt32 d = []"
  by (simp add: grow_def Let_def MaxInt32_def int32_def)

lemma setIndex_grow:
  assumes "ordinal \<le> MaxInt32"
  shows "setIndex (grow slice ordinal d) ordinal v =
           (if slice = [] \<and> ordinal = MaxInt32 then None
            else Some ((grow slice ordinal d)[ordinal := v]))"
proof (cases "ordinal < length slice")
  case True
  then show ?thesis using grow_within(1) [OF True, of d] by (auto simp: setIndex_def)
next
  case False
  show ?thesis
  proof (cases "slice = [] \<and> ordinal = MaxInt32")
    case True
    then show ?thesis by (simp add: grow_sentinel setIndex_def)
  next
    case n: False
    from False have "length slice \<le> ordinal" by simp
    from grow_beyond [OF this assms n, of d] n show ?thesis by (simp add: setIndex_def)
  qed
qed







subsection \<open>When the state builder returns\<close>






subsection \<open>The claims\<close>

text \<open>
  C7. For every snapshot and every pod ordinal, the filter of PodFitsResources answers
  Success exactly when the snapshot's FreeCap list is empty or the free capacity at the
  ordinal is strictly positive, and answers Unschedulable with the single reason
  "pod at full capacity" in every other case.
\<close>

theorem PodFitsResources_Filter_spec:
  "(PodFitsResources_Filter st podID = NewStatus Success []) =
     (FreeCap st = [] \<or> 0 < Free st podID)
   \<and> IsSuccess (PodFitsResources_Filter st podID) = (FreeCap st = [] \<or> 0 < Free st podID)
   \<and> PodFitsResources_Filter st podID =
       (if FreeCap st = [] \<or> 0 < Free st podID then NewStatus Success []
        else NewStatus Unschedulable [''pod at full capacity''])"
  by (simp add: PodFitsResources_Filter_def NewStatus_def IsSuccess_def
      ErrReasonUnschedulable_def)

lemmas name_eval = OrdinalFromPodName_def ParseInt_def afterLastDash_def isDigit_def
  digitVal_def MaxInt32_def PodNameFromOrdinal_def digitChar_def

lemmas state_eval = State_build_def accountVPod_def accountPlacement_def withReserved_def
  updateFreeCapacity_def grow_def setIndex_def int32_def elems_def accountReserved_def
  reservedFor_def MAXFILLUP_def EVENSPREAD_def EVENSPREAD_BYNODE_def Let_def
  replicate_numeral_eval




subsection \<open>The paths of scheduleVPod\<close>

lemma ValidatePolicy_empty:
  "(ValidatePolicy m pol = []) = (\<forall>pr \<in> set (Priorities pol). 0 < Weight pr \<and> Weight pr < m)"
  by (auto simp: ValidatePolicy_def filter_empty_conv)

lemma scheduleVPod_invalid_policy:
  assumes "stateAccessor s (reserved s) = Some (Inr st, res)" and "SchedulerPolicy st = []"
    and "policy s = Some pol"
    and "GetTotalVReplicas (elems (GetPlacements vpod)) \<noteq> GetVReplicas vpod"
    and "ValidatePolicy (MaxTotalWeight env) pol \<noteq> []"
  shows "scheduleVPod env s vpod =
           Some ((None, Detached (elems (GetPlacements vpod))), Some ErrValidatingPolicy,
                 s\<lparr>reserved := res\<rparr>)"
  using assms by (simp add: scheduleVPod_def Let_def)

lemma scheduleVPod_equal:
  assumes "stateAccessor s (reserved s) = Some (Inr st, res)"
    and "GetTotalVReplicas (elems (GetPlacements vpod)) = GetVReplicas vpod"
  shows "scheduleVPod env s vpod =
           Some ((GetPlacements vpod, Shared (PlacementsSpare vpod)), None,
                 s\<lparr>reserved := res, pending := AList.delete (GetKey vpod) (pending s)\<rparr>)"
  using assms by (simp add: scheduleVPod_def Let_def)

lemma scheduleVPod_no_policy:
  assumes "stateAccessor s (reserved s) = Some (Inr st, res)" and "SchedulerPolicy st = []"
    and "policy s = None"
    and "GetTotalVReplicas (elems (GetPlacements vpod)) \<noteq> GetVReplicas vpod"
  shows "scheduleVPod env s vpod =
           Some ((GetPlacements vpod, Shared (PlacementsSpare vpod)), None,
                 s\<lparr>reserved := res, pending := AList.delete (GetKey vpod) (pending s)\<rparr>)"
  using assms by (simp add: scheduleVPod_def Let_def finishScheduling_def)

lemma existingView_own:
  "length content = length (elems (GetPlacements vpod)) \<Longrightarrow>
   existingView vpod (Shared spare) content = content"
  by (simp add: existingView_def)

lemma Schedule_own:
  assumes "scheduleVPod env s vpod = Some ((GetPlacements vpod, Shared spare), err, s1)"
  shows "Schedule env s vpod =
     Some (case GetPlacements vpod of
        None \<Rightarrow> ((None, err), s1)
      | Some ps \<Rightarrow>
          ((Some (sort_key (\<lambda>p. OrdinalFromPodName (PodName p)) ps), err),
           reservePlacements vpod (sort_key (\<lambda>p. OrdinalFromPodName (PodName p)) ps)
             (sort_key (\<lambda>p. OrdinalFromPodName (PodName p)) ps) s1))"
  using assms
  by (simp add: Schedule_def Let_def existingView_def elems_def split: option.splits)

lemma reservePlacements_fields [simp]:
  "pending (reservePlacements vpod ex ps s) = pending s"
  "autoscaleCalls (reservePlacements vpod ex ps s) = autoscaleCalls s"
  "replicas (reservePlacements vpod ex ps s) = replicas s"
  "policy (reservePlacements vpod ex ps s) = policy s"
  "statefulSetName (reservePlacements vpod ex ps s) = statefulSetName s"
  "randCalls (reservePlacements vpod ex ps s) = randCalls s"
  "autoscaler (reservePlacements vpod ex ps s) = autoscaler s"
  by (simp_all add: reservePlacements_def)

lemmas fixture_eval = exampleEnv_def exampleBuilder_def exampleScheduler_def exampleVPod_def
  GetTotalVReplicas_def ordKey_def

lemmas sched_eval = Schedule_def scheduleVPod_def finishScheduling_def addReplicas_def
  removeReplicas_def existingView_def reservePlacements_def reserveOne_def
  pendingVReplicas_def Free_def SetFree_def

text \<open>
  C9. ValidatePolicy returns no error exactly when every priority weight of the policy
  lies strictly between 0 and MaxTotalWeight. When the plugin-policy path is taken (the
  snapshot has no policy type, the scheduler has a plugin policy and the committed total
  differs from the desired vreplicas) and the validation fails, Schedule returns an error
  and a nil placement list, and nothing but the reservation table as the state accessor
  left it is changed.
\<close>

theorem ValidatePolicy_spec:
  "(ValidatePolicy (MaxTotalWeight env) pol = []) =
     (\<forall>pr \<in> set (Priorities pol). 0 < Weight pr \<and> Weight pr < MaxTotalWeight env)
   \<and> (stateAccessor s (reserved s) = Some (Inr st, res) \<longrightarrow> SchedulerPolicy st = [] \<longrightarrow>
        policy s = Some pol \<longrightarrow>
        GetTotalVReplicas (elems (GetPlacements vpod)) \<noteq> GetVReplicas vpod \<longrightarrow>
        ValidatePolicy (MaxTotalWeight env) pol \<noteq> [] \<longrightarrow>
        Schedule env s vpod = Some ((None, Some ErrValidatingPolicy), s\<lparr>reserved := res\<rparr>))"
  by (simp add: ValidatePolicy_empty Schedule_def scheduleVPod_invalid_policy)

theorem ValidatePolicy_spec_witness:
  "ValidatePolicy (MaxTotalWeight exampleEnv)
     \<lparr>Predicates = [''PodFitsResources''],
      Priorities = [\<lparr>PriorityName = ''LowestOrdinalPriority'', Weight = 0\<rparr>]\<rparr> \<noteq> []
   \<and> ValidatePolicy (MaxTotalWeight exampleEnv)
     \<lparr>Predicates = [''PodFitsResources''],
      Priorities = [\<lparr>PriorityName = ''LowestOrdinalPriority'', Weight = 1\<rparr>]\<rparr> = []
   \<and> Schedule exampleEnv
       ((exampleScheduler [] 3 [])
          \<lparr>policy := Some \<lparr>Predicates = [''PodFitsResources''],
                 Priorities = [\<lparr>PriorityName = ''LowestOrdinalPriority'', Weight = 0\<rparr>]\<rparr>\<rparr>)
       (exampleVPod 2 [(''pool-0'', 1)]) =
     Some ((None, Some ErrValidatingPolicy),
      (exampleScheduler [] 3 [])
          \<lparr>policy := Some \<lparr>Predicates = [''PodFitsResources''],
                 Priorities = [\<lparr>PriorityName = ''LowestOrdinalPriority'', Weight = 0\<rparr>]\<rparr>\<rparr>)"
proof -
  let ?pol = "\<lparr>Predicates = [''PodFitsResources''],
      Priorities = [\<lparr>PriorityName = ''LowestOrdinalPriority'', Weight = 0\<rparr>]\<rparr>"
  let ?pol1 = "\<lparr>Predicates = [''PodFitsResources''],
      Priorities = [\<lparr>PriorityName = ''LowestOrdinalPriority'', Weight = 1\<rparr>]\<rparr>"
  let ?s = "(exampleScheduler [] 3 [])\<lparr>policy := Some ?pol\<rparr>"
  let ?st = "\<lparr>FreeCap = [], LastOrdinal = - 1, Capacity = 10, NumZones = 0, NumNodes = 0,
              SchedulerPolicy = [], NodeToZoneMap = Map.empty\<rparr>"
  have a: "stateAccessor ?s (reserved ?s) = Some (Inr ?st, [])"
    by (simp add: fixture_eval state_eval)
  show ?thesis
    using ValidatePolicy_spec [of exampleEnv ?pol ?s ?st "[]" "exampleVPod 2 [(''pool-0'', 1)]"]
      ValidatePolicy_spec [of exampleEnv ?pol1 ?s ?st "[]" "exampleVPod 2 [(''pool-0'', 1)]"] a
    by (simp add: fixture_eval elems_def)
qed

text \<open>
  C4, as amended. When the state snapshot succeeds and the committed total of the vpod
  equals its desired vreplicas, Schedule returns the existing placements stably sorted by
  ordinal (the very list when it is in ascending order of ordinals already, nil when the
  vpod has none) and a nil error, removes the vpod's entry from the pending table and
  does not call the autoscaler.
\<close>

theorem Schedule_already_scheduled:
  assumes "stateAccessor s (reserved s) = Some (Inr st, res)"
    and "GetTotalVReplicas (elems (GetPlacements vpod)) = GetVReplicas vpod"
  shows "\<exists>s'. Schedule env s vpod =
                 Some ((map_option (sort_key ordKey) (GetPlacements vpod), None), s')
            \<and> (sorted (map ordKey (elems (GetPlacements vpod))) \<longrightarrow>
                 Schedule env s vpod = Some ((GetPlacements vpod, None), s'))
            \<and> pending s' = AList.delete (GetKey vpod) (pending s)
            \<and> map_of (pending s') (GetKey vpod) = None
            \<and> autoscaleCalls s' = autoscaleCalls s"
proof -
  have k: "(\<lambda>p. OrdinalFromPodName (PodName p)) = ordKey"
    by (simp add: ordKey_def fun_eq_iff)
  obtain s' where 1: "Schedule env s vpod =
      Some ((map_option (sort_key ordKey) (GetPlacements vpod), None), s')"
    and 3: "pending s' = AList.delete (GetKey vpod) (pending s)"
    and 5: "autoscaleCalls s' = autoscaleCalls s"
    using Schedule_own [OF scheduleVPod_equal [OF assms, of env]]
    by (cases "GetPlacements vpod") (simp_all add: k)
  have 2: "Schedule env s vpod = Some ((GetPlacements vpod, None), s')"
    if "sorted (map ordKey (elems (GetPlacements vpod)))"
    using that 1 by (cases "GetPlacements vpod") (simp_all add: elems_def sort_key_id_if_sorted)
  have 4: "map_of (pending s') (GetKey vpod) = None"
    by (simp add: 3 delete_conv')
  from 1 2 3 4 5 show ?thesis by blast
qed

text \<open>
  The claim as it was stated has the existing list returned unchanged; a committed list
  that is not in the order of the ordinals comes back sorted.
\<close>

theorem Schedule_already_scheduled_counterexample:
  "GetTotalVReplicas (elems (GetPlacements (exampleVPod 4 [(''pool-1'', 3), (''pool-0'', 1)]))) =
     GetVReplicas (exampleVPod 4 [(''pool-1'', 3), (''pool-0'', 1)])
   \<and> map_option (fst \<circ> fst) (Schedule exampleEnv
         (exampleScheduler MAXFILLUP 3 [exampleVPod 4 [(''pool-1'', 3), (''pool-0'', 1)]])
         (exampleVPod 4 [(''pool-1'', 3), (''pool-0'', 1)])) =
       Some (Some [\<lparr>PodName = ''pool-0'', VReplicas = 1\<rparr>, \<lparr>PodName = ''pool-1'', VReplicas = 3\<rparr>])
   \<and> map_option (fst \<circ> fst) (Schedule exampleEnv
         (exampleScheduler MAXFILLUP 3 [exampleVPod 4 [(''pool-1'', 3), (''pool-0'', 1)]])
         (exampleVPod 4 [(''pool-1'', 3), (''pool-0'', 1)])) \<noteq>
       Some (GetPlacements (exampleVPod 4 [(''pool-1'', 3), (''pool-0'', 1)]))"
  by (simp add: sched_eval fixture_eval state_eval name_eval)

theorem Schedule_already_scheduled_witness:
  "\<exists>s'. Schedule exampleEnv
         (exampleScheduler MAXFILLUP 3 [exampleVPod 4 [(''pool-0'', 1), (''pool-1'', 3)]])
         (exampleVPod 4 [(''pool-0'', 1), (''pool-1'', 3)]) =
     Some ((Some [\<lparr>PodName = ''pool-0'', VReplicas = 1\<rparr>, \<lparr>PodName = ''pool-1'', VReplicas = 3\<rparr>],
            None), s')
   \<and> pending s' = []"
proof -
  let ?v = "exampleVPod 4 [(''pool-0'', 1), (''pool-1'', 3)]"
  let ?s = "exampleScheduler MAXFILLUP 3 [?v]"
  let ?st = "\<lparr>FreeCap = [9, 7], LastOrdinal = 1, Capacity = 10, NumZones = 0, NumNodes = 0,
              SchedulerPolicy = ''MAXFILLUP'', NodeToZoneMap = Map.empty\<rparr>"
  have a: "stateAccessor ?s (reserved ?s) = Some (Inr ?st, [])"
    by (simp add: fixture_eval state_eval name_eval)
  have b: "GetTotalVReplicas (elems (GetPlacements ?v)) = GetVReplicas ?v"
    by (simp add: fixture_eval elems_def)
  show ?thesis
    using Schedule_already_scheduled [OF a b, of exampleEnv]
    by (auto simp add: fixture_eval name_eval elems_def)
qed

text \<open>
  C10. When the snapshot has an empty policy type, the scheduler has no plugin policy and
  the desired vreplicas differ from the committed total, Schedule neither adds nor removes
  a placement: it returns the vpod's existing placements (in the order of their ordinals,
  as every list it returns) with a nil error, deletes the vpod's pending entry and does
  not call the autoscaler.
\<close>

theorem Schedule_no_policy:
  assumes "stateAccessor s (reserved s) = Some (Inr st, res)" and "SchedulerPolicy st = []"
    and "policy s = None"
    and "GetTotalVReplicas (elems (GetPlacements vpod)) \<noteq> GetVReplicas vpod"
  shows "\<exists>s'. Schedule env s vpod =
                 Some ((map_option (sort_key ordKey) (GetPlacements vpod), None), s')
            \<and> mset (elems (map_option (sort_key ordKey) (GetPlacements vpod))) =
                mset (elems (GetPlacements vpod))
            \<and> pending s' = AList.delete (GetKey vpod) (pending s)
            \<and> map_of (pending s') (GetKey vpod) = None
            \<and> autoscaleCalls s' = autoscaleCalls s"
proof -
  have k: "(\<lambda>p. OrdinalFromPodName (PodName p)) = ordKey"
    by (simp add: ordKey_def fun_eq_iff)
  obtain s' where 1: "Schedule env s vpod =
      Some ((map_option (sort_key ordKey) (GetPlacements vpod), None), s')"
    and 3: "pending s' = AList.delete (GetKey vpod) (pending s)"
    and 5: "autoscaleCalls s' = autoscaleCalls s"
    using Schedule_own [OF scheduleVPod_no_policy [OF assms, of env]]
    by (cases "GetPlacements vpod") (simp_all add: k)
  have 2: "mset (elems (map_option (sort_key ordKey) (GetPlacements vpod))) =
             mset (elems (GetPlacements vpod))"
    by (cases "GetPlacements vpod") (simp_all add: elems_def)
  have 4: "map_of (pending s') (GetKey vpod) = None"
    by (simp add: 3 delete_conv')
  from 1 2 3 4 5 show ?thesis by blast
qed

theorem Schedule_no_policy_witness:
  "GetTotalVReplicas (elems (GetPlacements (exampleVPod 9 [(''pool-1'', 3), (''pool-0'', 1)]))) \<noteq>
     GetVReplicas (exampleVPod 9 [(''pool-1'', 3), (''pool-0'', 1)])
   \<and> (\<exists>s'. Schedule exampleEnv
         (exampleScheduler [] 3 [exampleVPod 9 [(''pool-1'', 3), (''pool-0'', 1)]])
         (exampleVPod 9 [(''pool-1'', 3), (''pool-0'', 1)]) =
     Some ((Some [\<lparr>PodName = ''pool-0'', VReplicas = 1\<rparr>, \<lparr>PodName = ''pool-1'', VReplicas = 3\<rparr>],
            None), s')
     \<and> pending s' = [])"
proof -
  let ?v = "exampleVPod 9 [(''pool-1'', 3), (''pool-0'', 1)]"
  let ?s = "exampleScheduler [] 3 [?v]"
  let ?st = "\<lparr>FreeCap = [9, 7], LastOrdinal = 1, Capacity = 10, NumZones = 0, NumNodes = 0,
              SchedulerPolicy = [], NodeToZoneMap = Map.empty\<rparr>"
  have a: "stateAccessor ?s (reserved ?s) = Some (Inr ?st, [])"
    by (simp add: fixture_eval state_eval name_eval)
  have b: "GetTotalVReplicas (elems (GetPlacements ?v)) \<noteq> GetVReplicas ?v"
    by (simp add: fixture_eval elems_def)
  have c: "SchedulerPolicy ?st = []" "policy ?s = None"
    by (simp_all add: fixture_eval)
  show ?thesis
    using Schedule_no_policy [OF a c b, of exampleEnv]
    by (auto simp add: fixture_eval name_eval elems_def)
qed

text \<open>
  C8. Every non-nil placement list that Schedule returns is in ascending order of the
  pod ordinals, whatever path scheduleVPod took: it is the stable sort, by ordinal, of the
  list that scheduleVPod returned, so that it holds the same placements and those of equal
  ordinal in their former order.
\<close>

theorem Schedule_sorted:
  assumes "Schedule env s vpod = Some ((Some ps, err), s')"
  shows "sorted (map ordKey ps)
       \<and> (\<exists>qs sh s1. scheduleVPod env s vpod = Some ((Some qs, sh), err, s1)
              \<and> ps = sort_key ordKey qs
              \<and> mset ps = mset qs
              \<and> (\<forall>k. filter (\<lambda>p. ordKey p = k) ps = filter (\<lambda>p. ordKey p = k) qs))"
proof -
  have k: "(\<lambda>p. OrdinalFromPodName (PodName p)) = ordKey"
    by (simp add: ordKey_def fun_eq_iff)
  from assms obtain pl sh e s1 where sv: "scheduleVPod env s vpod = Some ((pl, sh), e, s1)"
    by (cases "scheduleVPod env s vpod") (auto simp: Schedule_def)
  with assms obtain qs where q: "pl = Some qs" and p: "ps = sort_key ordKey qs" and e: "e = err"
    by (cases pl) (auto simp: Schedule_def Let_def k)
  have "sorted (map ordKey ps)" by (simp add: p)
  moreover have "\<forall>k. filter (\<lambda>p. ordKey p = k) ps = filter (\<lambda>p. ordKey p = k) qs"
    by (simp add: p sort_key_stable)
  moreover have "mset ps = mset qs" by (simp add: p)
  ultimately show ?thesis using sv q p e by simp
qed

theorem Schedule_sorted_witness:
  "Schedule exampleEnv
     (exampleScheduler MAXFILLUP 3 [exampleVPod 12 [(''pool-1'', 3), (''pool-0'', 1)]])
     (exampleVPod 12 [(''pool-1'', 3), (''pool-0'', 1)]) =
     Some ((Some [\<lparr>PodName = ''pool-0'', VReplicas = 2\<rparr>, \<lparr>PodName = ''pool-1'', VReplicas = 10\<rparr>],
            None),
      (exampleScheduler MAXFILLUP 3 [exampleVPod 12 [(''pool-1'', 3), (''pool-0'', 1)]])
        \<lparr>reserved := [((''ns'', ''vpod''), [(''pool-0'', 2), (''pool-1'', 10)])]\<rparr>)
   \<and> sorted (map ordKey
         [\<lparr>PodName = ''pool-0'', VReplicas = 2\<rparr>, \<lparr>PodName = ''pool-1'', VReplicas = 10\<rparr>])"
proof -
  let ?v = "exampleVPod 12 [(''pool-1'', 3), (''pool-0'', 1)]"
  let ?s = "exampleScheduler MAXFILLUP 3 [?v]"
  have a: "Schedule exampleEnv ?s ?v =
     Some ((Some [\<lparr>PodName = ''pool-0'', VReplicas = 2\<rparr>, \<lparr>PodName = ''pool-1'', VReplicas = 10\<rparr>],
            None),
      ?s\<lparr>reserved := [((''ns'', ''vpod''), [(''pool-0'', 2), (''pool-1'', 10)])]\<rparr>)"
    by (simp add: sched_eval fixture_eval state_eval name_eval)
  show ?thesis
    using Schedule_sorted [OF a] a by simp
qed

subsection \<open>Adding and removing replicas under MAXFILLUP\<close>

lemma GetTotalVReplicas_append [simp]:
  "GetTotalVReplicas (xs @ ys) = GetTotalVReplicas xs + GetTotalVReplicas ys"
  by (simp add: GetTotalVReplicas_def)

lemma GetTotalVReplicas_simps [simp]:
  "GetTotalVReplicas [] = 0"
  "GetTotalVReplicas (p # ps) = VReplicas p + GetTotalVReplicas ps"
  by (simp_all add: GetTotalVReplicas_def)

lemma GetTotalVReplicas_sort_key [simp]:
  "GetTotalVReplicas (sort_key f ps) = GetTotalVReplicas ps"
proof -
  have "sum_list (map VReplicas (sort_key f ps)) =
        sum_mset (mset (map VReplicas (sort_key f ps)))"
    by (simp only: sum_mset_sum_list)
  also have "\<dots> = sum_mset (mset (map VReplicas ps))" by simp
  also have "\<dots> = sum_list (map VReplicas ps)" by (simp only: sum_mset_sum_list)
  finally show ?thesis by (simp add: GetTotalVReplicas_def)
qed

lemma SetFree_panics:
  "ordinal \<le> MaxInt32 \<Longrightarrow>
   (SetFree st ordinal v = None) = (FreeCap st = [] \<and> ordinal = MaxInt32)"
  by (simp add: SetFree_def setIndex_grow)

lemma SetFree_Some:
  assumes "SetFree st ordinal v = Some st'"
  shows "FreeCap st' \<noteq> []" "Capacity st' = Capacity st" "SchedulerPolicy st' = SchedulerPolicy st"
    "NodeToZoneMap st' = NodeToZoneMap st"
  using assms by (auto simp: SetFree_def setIndex_def split: option.splits if_splits)

lemma addToExisting_step:
  assumes "addToExisting (p # ps) (new, diff, st) = Some r"
  shows "(0 \<le> diff \<and> 0 < Free st (OrdinalFromPodName (PodName p)) \<and>
          (\<exists>st1. SetFree st (OrdinalFromPodName (PodName p))
                    (Free st (OrdinalFromPodName (PodName p)) -
                     min (Free st (OrdinalFromPodName (PodName p))) diff) = Some st1 \<and>
                  addToExisting ps
                    (new @ [\<lparr>PodName = PodName p,
                             VReplicas = VReplicas p +
                               min (Free st (OrdinalFromPodName (PodName p))) diff\<rparr>],
                     diff - min (Free st (OrdinalFromPodName (PodName p))) diff, st1) = Some r))
       \<or> (\<not> (0 \<le> diff \<and> 0 < Free st (OrdinalFromPodName (PodName p))) \<and>
          addToExisting ps (new @ [p], diff, st) = Some r)"
  using assms by (auto simp: Let_def split: option.splits if_splits)

lemma addToExisting_total:
  assumes "addToExisting ps (new, diff, st) = Some (new', diff', st')" and "0 \<le> diff"
  shows "GetTotalVReplicas new' + diff' = GetTotalVReplicas new + GetTotalVReplicas ps + diff
       \<and> 0 \<le> diff' \<and> diff' \<le> diff"
  using assms
proof (induction ps arbitrary: new diff st)
  case Nil
  then show ?case by simp
next
  case (Cons p ps)
  let ?f = "Free st (OrdinalFromPodName (PodName p))"
  let ?a = "min ?f diff"
  from addToExisting_step [OF Cons.prems(1)] show ?case
  proof (elim disjE conjE exE)
    fix st1
    assume f: "0 < ?f"
      and run: "addToExisting ps
                  (new @ [\<lparr>PodName = PodName p, VReplicas = VReplicas p + ?a\<rparr>], diff - ?a, st1) =
                Some (new', diff', st')"
    have a: "0 \<le> ?a" "?a \<le> diff" using f Cons.prems(2) by auto
    from Cons.IH [OF run] a show ?thesis by auto
  next
    assume "addToExisting ps (new @ [p], diff, st) = Some (new', diff', st')"
    from Cons.IH [OF this] Cons.prems(2) show ?thesis by auto
  qed
qed

lemma addToExisting_returns:
  assumes "FreeCap st \<noteq> [] \<or> (\<forall>p \<in> set ps. OrdinalFromPodName (PodName p) \<noteq> MaxInt32)"
  shows "\<exists>r. addToExisting ps (new, diff, st) = Some r"
  using assms
proof (induction ps arbitrary: new diff st)
  case Nil
  then show ?case by simp
next
  case (Cons p ps)
  let ?o = "OrdinalFromPodName (PodName p)"
  let ?f = "Free st ?o"
  let ?a = "min ?f diff"
  show ?case
  proof (cases "0 \<le> diff \<and> 0 < ?f")
    case True
    from Cons.prems have "\<not> (FreeCap st = [] \<and> ?o = MaxInt32)" by auto
    with SetFree_panics [OF OrdinalFromPodName_le, where st = st and v = "?f - ?a"
        and podName1 = "PodName p"]
    obtain st1 where s: "SetFree st ?o (?f - ?a) = Some st1" by auto
    from SetFree_Some(1) [OF s] have "FreeCap st1 \<noteq> []" .
    from Cons.IH [of st1 "new @ [\<lparr>PodName = PodName p, VReplicas = VReplicas p + ?a\<rparr>]" "diff - ?a"]
      this
    obtain r where "addToExisting ps
        (new @ [\<lparr>PodName = PodName p, VReplicas = VReplicas p + ?a\<rparr>], diff - ?a, st1) = Some r"
      by auto
    with True s have "addToExisting (p # ps) (new, diff, st) = Some r" by (simp add: Let_def)
    then show ?thesis by blast
  next
    case False
    from Cons.prems have
      "FreeCap st \<noteq> [] \<or> (\<forall>p \<in> set ps. OrdinalFromPodName (PodName p) \<noteq> MaxInt32)" by auto
    from Cons.IH [OF this, of "new @ [p]" diff]
    obtain r where "addToExisting ps (new @ [p], diff, st) = Some r" by auto
    with False have "addToExisting (p # ps) (new, diff, st) = Some r" by (auto simp: Let_def)
    then show ?thesis by blast
  qed
qed

lemma addToNew_pos_done:
  "Free st ordinal > 0 \<Longrightarrow>
   SetFree st ordinal (Free st ordinal - min (Free st ordinal) diff) = Some st1 \<Longrightarrow>
   diff - min (Free st ordinal) diff = 0 \<Longrightarrow>
   addToNew name (ordinal # os) (new, diff, st) =
     Some (new @ [\<lparr>PodName = PodNameFromOrdinal name ordinal,
                    VReplicas = min (Free st ordinal) diff\<rparr>],
           diff - min (Free st ordinal) diff, st1)"
  by (simp add: Let_def)

lemma addToNew_pos_more:
  "Free st ordinal > 0 \<Longrightarrow>
   SetFree st ordinal (Free st ordinal - min (Free st ordinal) diff) = Some st1 \<Longrightarrow>
   diff - min (Free st ordinal) diff \<noteq> 0 \<Longrightarrow>
   addToNew name (ordinal # os) (new, diff, st) =
     addToNew name os
       (new @ [\<lparr>PodName = PodNameFromOrdinal name ordinal,
                VReplicas = min (Free st ordinal) diff\<rparr>],
        diff - min (Free st ordinal) diff, st1)"
  by (auto simp add: Let_def)

lemma addToNew_pos_panic:
  "Free st ordinal > 0 \<Longrightarrow>
   SetFree st ordinal (Free st ordinal - min (Free st ordinal) diff) = None \<Longrightarrow>
   addToNew name (ordinal # os) (new, diff, st) = None"
  by (simp add: Let_def)

lemma addToNew_full:
  "\<not> Free st ordinal > 0 \<Longrightarrow>
   addToNew name (ordinal # os) (new, diff, st) =
     (if diff = 0 then Some (new, diff, st) else addToNew name os (new, diff, st))"
  by (simp add: Let_def)

lemma addToNew_total:
  assumes "addToNew name os (new, diff, st) = Some (new', diff', st')" and "0 \<le> diff"
  shows "GetTotalVReplicas new' + diff' = GetTotalVReplicas new + diff
       \<and> 0 \<le> diff' \<and> diff' \<le> diff"
  using assms
proof (induction os arbitrary: new diff st)
  case Nil
  then show ?case by simp
next
  case (Cons ordinal os)
  let ?f = "Free st ordinal"
  show ?case
  proof (cases "?f > 0")
    case True
    let ?a = "min ?f diff"
    let ?new = "new @ [\<lparr>PodName = PodNameFromOrdinal name ordinal, VReplicas = ?a\<rparr>]"
    have a: "0 \<le> ?a" "?a \<le> diff" using True Cons.prems(2) by auto
    show ?thesis
    proof (cases "SetFree st ordinal (?f - ?a)")
      case None
      from Cons.prems(1) [unfolded addToNew_pos_panic [OF True None]] show ?thesis by simp
    next
      case (Some st1)
      show ?thesis
      proof (cases "diff - ?a = 0")
        case d: True
        from Cons.prems(1) [unfolded addToNew_pos_done [OF True Some d]]
        have "new' = ?new" "diff' = diff - ?a" by simp_all
        with a show ?thesis by simp
      next
        case d: False
        from Cons.prems(1) [unfolded addToNew_pos_more [OF True Some d]]
        have "addToNew name os (?new, diff - ?a, st1) = Some (new', diff', st')" .
        from Cons.IH [OF this] a show ?thesis by auto
      qed
    qed
  next
    case False
    note step = Cons.prems(1) [unfolded addToNew_full [OF False]]
    show ?thesis
    proof (cases "diff = 0")
      case True
      with step show ?thesis by simp
    next
      case d: False
      with step have "addToNew name os (new, diff, st) = Some (new', diff', st')" by simp
      from Cons.IH [OF this] Cons.prems(2) show ?thesis by auto
    qed
  qed
qed

lemma addToNew_returns:
  assumes "\<forall>ordinal \<in> set os. ordinal < MaxInt32"
  shows "\<exists>r. addToNew name os (new, diff, st) = Some r"
  using assms
proof (induction os arbitrary: new diff st)
  case Nil
  then show ?case by simp
next
  case (Cons ordinal os)
  let ?f = "Free st ordinal"
  let ?a = "min ?f diff"
  let ?new = "new @ [\<lparr>PodName = PodNameFromOrdinal name ordinal, VReplicas = ?a\<rparr>]"
  from Cons.prems have o: "ordinal \<le> MaxInt32" "ordinal \<noteq> MaxInt32" by auto
  from SetFree_panics [OF o(1), where st = st and v = "?f - ?a"] o(2)
  obtain st1 where s: "SetFree st ordinal (?f - ?a) = Some st1" by auto
  from Cons.IH [of ?new "diff - ?a" st1] Cons.prems
  obtain r1 where r1: "addToNew name os (?new, diff - ?a, st1) = Some r1" by auto
  from Cons.IH [of new diff st] Cons.prems
  obtain r2 where r2: "addToNew name os (new, diff, st) = Some r2" by auto
  show ?case
  proof (cases "0 < ?f")
    case True
    show ?thesis
    proof (cases "diff - ?a = 0")
      case d: True
      show ?thesis unfolding addToNew_pos_done [OF True s d] by blast
    next
      case d: False
      show ?thesis unfolding addToNew_pos_more [OF True s d] using r1 by blast
    qed
  next
    case False
    note full = addToNew_full [OF False, of name os new diff]
    show ?thesis
    proof (cases "diff = 0")
      case True
      with full have "addToNew name (ordinal # os) (new, diff, st) = Some (new, diff, st)"
        by simp
      then show ?thesis by blast
    next
      case d: False
      with full r2 have "addToNew name (ordinal # os) (new, diff, st) = Some r2"
        by simp
      then show ?thesis by blast
    qed
  qed
qed

lemma addReplicas_total:
  assumes "addReplicas s st diff ps = Some (new, left)" and "0 \<le> diff"
  shows "GetTotalVReplicas new + left = GetTotalVReplicas ps + diff \<and> 0 \<le> left \<and> left \<le> diff"
proof -
  from assms(1) obtain n1 d1 st1 where e: "addToExisting ps ([], diff, st) = Some (n1, d1, st1)"
    by (cases "addToExisting ps ([], diff, st)") (auto simp: addReplicas_def)
  from addToExisting_total [OF e assms(2)]
  have 1: "GetTotalVReplicas n1 + d1 = GetTotalVReplicas ps + diff" "0 \<le> d1" "d1 \<le> diff"
    by simp_all
  show ?thesis
  proof (cases "d1 > 0")
    case False
    with assms e have "new = n1" "left = d1" by (simp_all add: addReplicas_def)
    with 1 show ?thesis by simp
  next
    case True
    with assms(1) e obtain n2 d2 st2 where
      n: "addToNew (statefulSetName s) [0..<nat (replicas s)] (n1, d1, st1) = Some (n2, d2, st2)"
      by (cases "addToNew (statefulSetName s) [0..<nat (replicas s)] (n1, d1, st1)")
         (auto simp: addReplicas_def)
    with True assms e have "new = n2" "left = d2" by (simp_all add: addReplicas_def)
    with addToNew_total [OF n 1(2)] 1 show ?thesis by simp
  qed
qed

lemma addReplicas_returns:
  assumes "FreeCap st \<noteq> [] \<or> (\<forall>p \<in> set ps. OrdinalFromPodName (PodName p) \<noteq> MaxInt32)"
    and "replicas s \<le> 2147483647"
  shows "\<exists>r. addReplicas s st diff ps = Some r"
proof -
  from addToExisting_returns [OF assms(1), of "[]" diff]
  obtain n1 d1 st1 where e: "addToExisting ps ([], diff, st) = Some (n1, d1, st1)"
    by (metis prod_cases3)
  have "\<forall>ordinal \<in> set [0..<nat (replicas s)]. ordinal < MaxInt32"
    using assms(2) by (auto simp: MaxInt32_def)
  from addToNew_returns [OF this, of "statefulSetName s" n1 d1 st1]
  obtain n2 d2 st2 where
    "addToNew (statefulSetName s) [0..<nat (replicas s)] (n1, d1, st1) = Some (n2, d2, st2)"
    by (metis prod_cases3)
  with e show ?thesis by (simp add: addReplicas_def)
qed

lemma addReplicas_reserved [simp]:
  "addReplicas (s\<lparr>reserved := r\<rparr>) st d ps = addReplicas s st d ps"
  by (auto simp: addReplicas_def split: option.splits prod.splits)

lemma scheduleVPod_maxfillup_up:
  assumes "stateAccessor s (reserved s) = Some (Inr st, res)"
    and "SchedulerPolicy st \<noteq> []" "SchedulerPolicy st \<noteq> EVENSPREAD"
    "SchedulerPolicy st \<noteq> EVENSPREAD_BYNODE"
    and "GetTotalVReplicas (elems (GetPlacements vpod)) < GetVReplicas vpod"
    and "addReplicas s st (GetVReplicas vpod - GetTotalVReplicas (elems (GetPlacements vpod)))
           (elems (GetPlacements vpod)) = Some (new, left)"
  shows "scheduleVPod env s vpod =
           Some (finishScheduling vpod (Some new, Detached (elems (GetPlacements vpod))) left
             (s\<lparr>reserved := res\<rparr>))"
  using assms by (simp add: scheduleVPod_def Let_def)

lemma scheduleVPod_maxfillup_down:
  assumes "stateAccessor s (reserved s) = Some (Inr st, res)"
    and "SchedulerPolicy st \<noteq> []" "SchedulerPolicy st \<noteq> EVENSPREAD"
    "SchedulerPolicy st \<noteq> EVENSPREAD_BYNODE"
    and "GetTotalVReplicas (elems (GetPlacements vpod)) > GetVReplicas vpod"
  shows "scheduleVPod env s vpod =
           Some ((Some (removeReplicas
                     (GetTotalVReplicas (elems (GetPlacements vpod)) - GetVReplicas vpod)
                     (elems (GetPlacements vpod))),
             Detached (elems (GetPlacements vpod))), None, s\<lparr>reserved := res\<rparr>)"
  using assms by (simp add: scheduleVPod_def Let_def)

lemma Schedule_detached:
  assumes "scheduleVPod env s vpod = Some ((Some ps, Detached ex), err, s1)"
  shows "Schedule env s vpod =
           Some ((Some (sort_key ordKey ps), err),
                 reservePlacements vpod ex (sort_key ordKey ps) s1)"
proof -
  have k: "(\<lambda>p. OrdinalFromPodName (PodName p)) = ordKey"
    by (simp add: ordKey_def fun_eq_iff)
  show ?thesis using assms by (simp add: Schedule_def Let_def existingView_def k)
qed

lemma GetTotalVReplicas_nonneg:
  "\<forall>p \<in> set xs. 0 \<le> VReplicas p \<Longrightarrow> 0 \<le> GetTotalVReplicas xs"
  by (induction xs) auto

lemma removeReplicasLoop_total:
  assumes "\<forall>p \<in> set xs. 0 \<le> VReplicas p" and "0 \<le> diff" and "diff \<le> GetTotalVReplicas xs"
  shows "GetTotalVReplicas (removeReplicasLoop diff xs acc) =
           GetTotalVReplicas acc + GetTotalVReplicas xs - diff"
  using assms
proof (induction xs arbitrary: diff acc)
  case Nil
  then show ?case by simp
next
  case (Cons p xs)
  have nn: "\<forall>p \<in> set xs. 0 \<le> VReplicas p" "0 \<le> GetTotalVReplicas xs"
    using Cons.prems(1) by (simp_all add: GetTotalVReplicas_nonneg)
  show ?case
  proof (cases "diff \<ge> VReplicas p")
    case True
    with Cons.prems have "0 \<le> diff - VReplicas p" "diff - VReplicas p \<le> GetTotalVReplicas xs"
      by simp_all
    from Cons.IH [OF nn(1) this] True show ?thesis by simp
  next
    case False
    from Cons.IH [OF nn(1) order_refl nn(2)] False show ?thesis by simp
  qed
qed

lemma removeReplicasLoop_all:
  assumes "\<forall>p \<in> set xs. 0 \<le> VReplicas p" and "GetTotalVReplicas xs \<le> diff"
  shows "removeReplicasLoop diff xs acc = acc"
  using assms
proof (induction xs arbitrary: diff)
  case Nil
  then show ?case by simp
next
  case (Cons p xs)
  have nn: "\<forall>p \<in> set xs. 0 \<le> VReplicas p" "0 \<le> GetTotalVReplicas xs"
    using Cons.prems(1) by (simp_all add: GetTotalVReplicas_nonneg)
  with Cons.prems(2) have "VReplicas p \<le> diff" "GetTotalVReplicas xs \<le> diff - VReplicas p"
    by simp_all
  with Cons.IH [OF nn(1)] show ?case by simp
qed

lemma removeReplicasLoop_zero:
  assumes "\<forall>p \<in> set xs. 0 \<le> VReplicas p"
  shows "removeReplicasLoop 0 xs acc = acc @ filter (\<lambda>q. VReplicas q \<noteq> 0) xs"
  using assms
proof (induction xs arbitrary: acc)
  case Nil
  then show ?case by simp
next
  case (Cons p xs)
  then show ?case by (cases "VReplicas p = 0") auto
qed

lemma removeReplicasLoop_split:
  assumes "\<forall>p \<in> set (dropped @ p # kept). 0 \<le> VReplicas p"
    and "GetTotalVReplicas dropped \<le> diff" and "diff < GetTotalVReplicas dropped + VReplicas p"
  shows "removeReplicasLoop diff (dropped @ p # kept) acc =
           acc @ \<lparr>PodName = PodName p,
                   VReplicas = VReplicas p - (diff - GetTotalVReplicas dropped)\<rparr> #
                 filter (\<lambda>q. VReplicas q \<noteq> 0) kept"
  using assms
proof (induction dropped arbitrary: diff)
  case Nil
  then show ?case by (simp add: removeReplicasLoop_zero)
next
  case (Cons q dropped)
  have nn: "0 \<le> GetTotalVReplicas dropped"
    using Cons.prems(1) by (simp add: GetTotalVReplicas_nonneg)
  with Cons.prems have "VReplicas q \<le> diff" by simp
  moreover have "removeReplicasLoop (diff - VReplicas q) (dropped @ p # kept) acc =
           acc @ \<lparr>PodName = PodName p,
                   VReplicas = VReplicas p - (diff - VReplicas q - GetTotalVReplicas dropped)\<rparr> #
                 filter (\<lambda>q. VReplicas q \<noteq> 0) kept"
    using Cons.prems by (intro Cons.IH) simp_all
  ultimately show ?case by (simp add: algebra_simps)
qed

lemma split_at_diff:
  assumes "\<forall>p \<in> set xs. 0 \<le> VReplicas p" and "0 \<le> diff" and "diff < GetTotalVReplicas xs"
  shows "\<exists>dropped p kept. xs = dropped @ p # kept \<and> GetTotalVReplicas dropped \<le> diff
           \<and> diff < GetTotalVReplicas dropped + VReplicas p"
  using assms
proof (induction xs arbitrary: diff)
  case Nil
  then show ?case by simp
next
  case (Cons q xs)
  show ?case
  proof (cases "diff < VReplicas q")
    case True
    with Cons.prems(2) have "q # xs = [] @ q # xs \<and> GetTotalVReplicas [] \<le> diff
        \<and> diff < GetTotalVReplicas [] + VReplicas q" by simp
    then show ?thesis by blast
  next
    case False
    with Cons.prems have "\<forall>p \<in> set xs. 0 \<le> VReplicas p" "0 \<le> diff - VReplicas q"
      "diff - VReplicas q < GetTotalVReplicas xs" by simp_all
    from Cons.IH [OF this] obtain dropped p kept where
      "xs = dropped @ p # kept" "GetTotalVReplicas dropped \<le> diff - VReplicas q"
      "diff - VReplicas q < GetTotalVReplicas dropped + VReplicas p" by blast
    then have "q # xs = (q # dropped) @ p # kept \<and> GetTotalVReplicas (q # dropped) \<le> diff
        \<and> diff < GetTotalVReplicas (q # dropped) + VReplicas p" by simp
    then show ?thesis by blast
  qed
qed

lemma GetTotalVReplicas_rev [simp]: "GetTotalVReplicas (rev xs) = GetTotalVReplicas xs"
  by (simp add: GetTotalVReplicas_def rev_map [symmetric])

text \<open>
  C3. On the scale-up path of MAXFILLUP (the snapshot's policy type is neither empty nor
  one of the two spread policies, and the desired vreplicas exceed the committed total),
  with (newPlacements, left) what addReplicas returns for the difference: the vreplicas
  of newPlacements and left add up to the desired vreplicas, and left lies between 0 and
  the difference. When left is positive, Schedule returns the partial placements (sorted
  by ordinal, as every list it returns) with ErrNotEnoughReplicas, sets the vpod's pending
  entry to left and, if it has an autoscaler, calls it with the pending vreplicas; when
  left is 0 it returns them with a nil error and the vpod has no pending entry.
  addReplicas does return, for every difference and every placement list, when the
  statefulset has at most \<^verbatim>\<open>math.MaxInt32\<close> replicas and either the snapshot's FreeCap
  is not empty or every pod name of the list has an ordinal.
\<close>

theorem addReplicas_conserves:
  assumes "stateAccessor s (reserved s) = Some (Inr st, res)"
    and "SchedulerPolicy st \<noteq> []" "SchedulerPolicy st \<noteq> EVENSPREAD"
    "SchedulerPolicy st \<noteq> EVENSPREAD_BYNODE"
    and "GetTotalVReplicas (elems (GetPlacements vpod)) < GetVReplicas vpod"
    and "addReplicas s st (GetVReplicas vpod - GetTotalVReplicas (elems (GetPlacements vpod)))
           (elems (GetPlacements vpod)) = Some (newPlacements, left)"
  shows "GetTotalVReplicas newPlacements + left = GetVReplicas vpod
       \<and> 0 \<le> left
       \<and> left \<le> GetVReplicas vpod - GetTotalVReplicas (elems (GetPlacements vpod))
       \<and> (0 < left \<longrightarrow>
            (\<exists>s'. Schedule env s vpod =
                     Some ((Some (sort_key ordKey newPlacements), Some ErrNotEnoughReplicas), s')
                \<and> GetTotalVReplicas (sort_key ordKey newPlacements) + left = GetVReplicas vpod
                \<and> map_of (pending s') (GetKey vpod) = Some left
                \<and> (autoscaler s \<longrightarrow>
                     autoscaleCalls s' = autoscaleCalls s @ [pendingVReplicas s'])))
       \<and> (left = 0 \<longrightarrow>
            (\<exists>s'. Schedule env s vpod = Some ((Some (sort_key ordKey newPlacements), None), s')
                \<and> map_of (pending s') (GetKey vpod) = None))
       \<and> (\<forall>diff ps.
            (FreeCap st \<noteq> [] \<or> (\<forall>p \<in> set ps. OrdinalFromPodName (PodName p) \<noteq> MaxInt32)) \<longrightarrow>
            replicas s \<le> 2147483647 \<longrightarrow>
            (\<exists>r. addReplicas s st diff ps = Some r))"
proof -
  let ?d = "GetVReplicas vpod - GetTotalVReplicas (elems (GetPlacements vpod))"
  have d: "0 \<le> ?d" using assms(5) by simp
  from addReplicas_total [OF assms(6) d]
  have t: "GetTotalVReplicas newPlacements + left = GetVReplicas vpod" "0 \<le> left" "left \<le> ?d"
    by simp_all
  note sv = scheduleVPod_maxfillup_up [OF assms, of env]
  have pos: "\<exists>s'. Schedule env s vpod =
                     Some ((Some (sort_key ordKey newPlacements), Some ErrNotEnoughReplicas), s')
                \<and> GetTotalVReplicas (sort_key ordKey newPlacements) + left = GetVReplicas vpod
                \<and> map_of (pending s') (GetKey vpod) = Some left
                \<and> (autoscaler s \<longrightarrow>
                     autoscaleCalls s' = autoscaleCalls s @ [pendingVReplicas s'])"
    if "0 < left"
  proof -
    define s2 where "s2 = snd (snd (finishScheduling vpod (Some newPlacements,
        Detached (elems (GetPlacements vpod))) left (s\<lparr>reserved := res\<rparr>)))"
    have f: "finishScheduling vpod (Some newPlacements,
        Detached (elems (GetPlacements vpod))) left (s\<lparr>reserved := res\<rparr>) =
        ((Some newPlacements, Detached (elems (GetPlacements vpod))), Some ErrNotEnoughReplicas, s2)"
      using that by (simp add: s2_def finishScheduling_def Let_def)
    have p: "pending s2 = AList.update (GetKey vpod) left (pending s)"
      using that by (simp add: s2_def finishScheduling_def Let_def)
    have a: "autoscaler s \<longrightarrow> autoscaleCalls s2 = autoscaleCalls s @ [pendingVReplicas s2]"
      using that by (simp add: s2_def finishScheduling_def Let_def pendingVReplicas_def)
    from Schedule_detached [OF sv [unfolded f]] p a t(1) show ?thesis
      by (simp add: update_conv' pendingVReplicas_def)
  qed
  have zero: "\<exists>s'. Schedule env s vpod = Some ((Some (sort_key ordKey newPlacements), None), s')
                \<and> map_of (pending s') (GetKey vpod) = None"
    if "left = 0"
  proof -
    have f: "finishScheduling vpod (Some newPlacements,
        Detached (elems (GetPlacements vpod))) left (s\<lparr>reserved := res\<rparr>) =
        ((Some newPlacements, Detached (elems (GetPlacements vpod))), None,
         s\<lparr>reserved := res, pending := AList.delete (GetKey vpod) (pending s)\<rparr>)"
      using that by (simp add: finishScheduling_def)
    from Schedule_detached [OF sv [unfolded f]] show ?thesis
      by (simp add: delete_conv')
  qed
  have ret: "\<exists>r. addReplicas s st diff ps = Some r"
    if "FreeCap st \<noteq> [] \<or> (\<forall>p \<in> set ps. OrdinalFromPodName (PodName p) \<noteq> MaxInt32)"
      and "replicas s \<le> 2147483647" for diff ps
    using that by (rule addReplicas_returns)
  from t pos zero ret show ?thesis by blast
qed

theorem addReplicas_conserves_witness:
  "addReplicas (exampleScheduler MAXFILLUP 2 [exampleVPod 30 [(''pool-1'', 3), (''pool-0'', 1)]])
     \<lparr>FreeCap = [9, 7], LastOrdinal = 1, Capacity = 10, NumZones = 0, NumNodes = 0,
      SchedulerPolicy = ''MAXFILLUP'', NodeToZoneMap = Map.empty\<rparr> 26
     [\<lparr>PodName = ''pool-1'', VReplicas = 3\<rparr>, \<lparr>PodName = ''pool-0'', VReplicas = 1\<rparr>] =
     Some ([\<lparr>PodName = ''pool-1'', VReplicas = 10\<rparr>, \<lparr>PodName = ''pool-0'', VReplicas = 10\<rparr>], 10)
   \<and> Schedule exampleEnv
         (exampleScheduler MAXFILLUP 2 [exampleVPod 30 [(''pool-1'', 3), (''pool-0'', 1)]])
         (exampleVPod 30 [(''pool-1'', 3), (''pool-0'', 1)]) =
       Some ((Some [\<lparr>PodName = ''pool-0'', VReplicas = 10\<rparr>, \<lparr>PodName = ''pool-1'', VReplicas = 10\<rparr>],
              Some ErrNotEnoughReplicas),
             (exampleScheduler MAXFILLUP 2 [exampleVPod 30 [(''pool-1'', 3), (''pool-0'', 1)]])
               \<lparr>pending := [((''ns'', ''vpod''), 10)],
                reserved := [((''ns'', ''vpod''), [(''pool-0'', 10), (''pool-1'', 10)])],
                autoscaleCalls := [10]\<rparr>)"
proof -
  let ?v = "exampleVPod 30 [(''pool-1'', 3), (''pool-0'', 1)]"
  let ?s = "exampleScheduler MAXFILLUP 2 [?v]"
  let ?st = "\<lparr>FreeCap = [9, 7], LastOrdinal = 1, Capacity = 10, NumZones = 0, NumNodes = 0,
              SchedulerPolicy = ''MAXFILLUP'', NodeToZoneMap = Map.empty\<rparr>"
  let ?new = "[\<lparr>PodName = ''pool-1'', VReplicas = 10\<rparr>, \<lparr>PodName = ''pool-0'', VReplicas = 10\<rparr>]"
  have a: "stateAccessor ?s (reserved ?s) = Some (Inr ?st, [])"
    by (simp add: fixture_eval state_eval name_eval)
  have b: "SchedulerPolicy ?st \<noteq> []" "SchedulerPolicy ?st \<noteq> EVENSPREAD"
    "SchedulerPolicy ?st \<noteq> EVENSPREAD_BYNODE"
    by (simp_all add: EVENSPREAD_def EVENSPREAD_BYNODE_def)
  have c: "GetTotalVReplicas (elems (GetPlacements ?v)) < GetVReplicas ?v"
    by (simp add: fixture_eval elems_def)
  have d: "addReplicas ?s ?st (GetVReplicas ?v - GetTotalVReplicas (elems (GetPlacements ?v)))
             (elems (GetPlacements ?v)) = Some (?new, 10)"
    by (simp add: fixture_eval elems_def addReplicas_def Free_def SetFree_def grow_def
        setIndex_def int32_def name_eval Let_def upt_rec)
  have e: "Schedule exampleEnv ?s ?v =
       Some ((Some [\<lparr>PodName = ''pool-0'', VReplicas = 10\<rparr>, \<lparr>PodName = ''pool-1'', VReplicas = 10\<rparr>],
              Some ErrNotEnoughReplicas),
             ?s\<lparr>pending := [((''ns'', ''vpod''), 10)],
                reserved := [((''ns'', ''vpod''), [(''pool-0'', 10), (''pool-1'', 10)])],
                autoscaleCalls := [10]\<rparr>)"
    by (simp add: sched_eval fixture_eval state_eval name_eval setIndex_def int32_def upt_rec)
  show ?thesis
    using addReplicas_conserves [OF a b c d, of exampleEnv] d e
    by (simp add: fixture_eval elems_def)
qed

text \<open>
  C6, as amended. For a placement list with non-negative vreplicas and a surplus diff
  between 0 and its total, removeReplicas returns a list whose total is the original total
  minus diff, consuming the placements from the end of the list (the highest ordinal of a
  list in the order of its ordinals). When diff is below the total, the trailing placements
  that diff covers are dropped, the placement before them is decremented by the remainder,
  and the placements before that one keep their vreplicas, those with no vreplicas being
  left out; the result lists the survivors from the decremented one backwards. When diff
  equals the total, nothing is left. On this path Schedule returns the result sorted, with
  a nil error, and leaves the pending table and the autoscaler alone.
\<close>

theorem removeReplicas_spec:
  assumes "\<forall>p \<in> set ps. 0 \<le> VReplicas p" and "0 \<le> diff" and "diff \<le> GetTotalVReplicas ps"
  shows "GetTotalVReplicas (removeReplicas diff ps) = GetTotalVReplicas ps - diff
       \<and> (diff < GetTotalVReplicas ps \<longrightarrow>
            (\<exists>pre p suf. ps = pre @ p # suf \<and> GetTotalVReplicas suf \<le> diff
               \<and> diff < GetTotalVReplicas suf + VReplicas p
               \<and> removeReplicas diff ps =
                   \<lparr>PodName = PodName p, VReplicas = VReplicas p - (diff - GetTotalVReplicas suf)\<rparr> #
                   rev (filter (\<lambda>q. VReplicas q \<noteq> 0) pre)))
       \<and> (diff = GetTotalVReplicas ps \<longrightarrow> removeReplicas diff ps = [])
       \<and> (\<forall>env s st res vpod.
            stateAccessor s (reserved s) = Some (Inr st, res) \<longrightarrow>
            SchedulerPolicy st \<noteq> [] \<longrightarrow> SchedulerPolicy st \<noteq> EVENSPREAD \<longrightarrow>
            SchedulerPolicy st \<noteq> EVENSPREAD_BYNODE \<longrightarrow>
            GetTotalVReplicas (elems (GetPlacements vpod)) > GetVReplicas vpod \<longrightarrow>
            (\<exists>s'. Schedule env s vpod =
                Some ((Some (sort_key ordKey
                   (removeReplicas
                      (GetTotalVReplicas (elems (GetPlacements vpod)) - GetVReplicas vpod)
                      (elems (GetPlacements vpod)))), None), s')
              \<and> pending s' = pending s
              \<and> autoscaleCalls s' = autoscaleCalls s))"
proof -
  have nn: "\<forall>p \<in> set (rev ps). 0 \<le> VReplicas p" using assms(1) by simp
  have 1: "GetTotalVReplicas (removeReplicas diff ps) = GetTotalVReplicas ps - diff"
    using removeReplicasLoop_total [OF nn assms(2), of "[]"] assms(3)
    by (simp add: removeReplicas_def)
  have 2: "\<exists>pre p suf. ps = pre @ p # suf \<and> GetTotalVReplicas suf \<le> diff
               \<and> diff < GetTotalVReplicas suf + VReplicas p
               \<and> removeReplicas diff ps =
                   \<lparr>PodName = PodName p, VReplicas = VReplicas p - (diff - GetTotalVReplicas suf)\<rparr> #
                   rev (filter (\<lambda>q. VReplicas q \<noteq> 0) pre)"
    if "diff < GetTotalVReplicas ps"
  proof -
    from split_at_diff [OF nn assms(2)] that obtain dropped p kept where
      x: "rev ps = dropped @ p # kept" "GetTotalVReplicas dropped \<le> diff"
      "diff < GetTotalVReplicas dropped + VReplicas p" by auto
    from x(1) have ps: "ps = rev kept @ p # rev dropped"
      by (metis rev_append rev.simps(2) rev_rev_ident append_Cons append_Nil append_assoc)
    have "removeReplicasLoop diff (dropped @ p # kept) [] =
           [] @ \<lparr>PodName = PodName p,
                   VReplicas = VReplicas p - (diff - GetTotalVReplicas dropped)\<rparr> #
                 filter (\<lambda>q. VReplicas q \<noteq> 0) kept"
      using nn x by (intro removeReplicasLoop_split) simp_all
    then have "removeReplicas diff ps =
        \<lparr>PodName = PodName p, VReplicas = VReplicas p - (diff - GetTotalVReplicas (rev dropped))\<rparr> #
        rev (filter (\<lambda>q. VReplicas q \<noteq> 0) (rev kept))"
      by (simp add: removeReplicas_def x(1) rev_filter)
    with ps x(2,3) show ?thesis
      by (intro exI [of _ "rev kept"] exI [of _ p] exI [of _ "rev dropped"]) simp
  qed
  have 3: "removeReplicas diff ps = []" if "diff = GetTotalVReplicas ps"
    using removeReplicasLoop_all [OF nn, of diff "[]"] that by (simp add: removeReplicas_def)
  have 4: "\<exists>s'. Schedule env s vpod =
                Some ((Some (sort_key ordKey
                   (removeReplicas
                      (GetTotalVReplicas (elems (GetPlacements vpod)) - GetVReplicas vpod)
                      (elems (GetPlacements vpod)))), None), s')
              \<and> pending s' = pending s
              \<and> autoscaleCalls s' = autoscaleCalls s"
    if "stateAccessor s (reserved s) = Some (Inr st, res)"
      "SchedulerPolicy st \<noteq> []" "SchedulerPolicy st \<noteq> EVENSPREAD"
      "SchedulerPolicy st \<noteq> EVENSPREAD_BYNODE"
      "GetTotalVReplicas (elems (GetPlacements vpod)) > GetVReplicas vpod"
    for env s st res vpod
    using Schedule_detached [OF scheduleVPod_maxfillup_down [OF that, of env]]
    by simp
  from 1 2 3 4 show ?thesis by blast
qed

text \<open>
  The claim as it was stated has exactly one placement decremented for every diff up to
  the total, and every other placement keeping its count; with diff equal to the total no
  placement is left, and a placement without vreplicas is dropped from the list.
\<close>

theorem removeReplicas_spec_counterexample:
  "(0::int) \<le> 5
   \<and> 5 \<le> GetTotalVReplicas
         [\<lparr>PodName = ''pool-0'', VReplicas = 3\<rparr>, \<lparr>PodName = ''pool-1'', VReplicas = 2\<rparr>]
   \<and> removeReplicas 5
         [\<lparr>PodName = ''pool-0'', VReplicas = 3\<rparr>, \<lparr>PodName = ''pool-1'', VReplicas = 2\<rparr>] = []
   \<and> removeReplicas 2
         [\<lparr>PodName = ''pool-0'', VReplicas = 0\<rparr>, \<lparr>PodName = ''pool-1'', VReplicas = 5\<rparr>] =
       [\<lparr>PodName = ''pool-1'', VReplicas = 3\<rparr>]"
  by (simp add: removeReplicas_def)

theorem removeReplicas_spec_witness:
  "GetTotalVReplicas (removeReplicas 7
     [\<lparr>PodName = ''pool-0'', VReplicas = 1\<rparr>, \<lparr>PodName = ''pool-1'', VReplicas = 5\<rparr>,
      \<lparr>PodName = ''pool-2'', VReplicas = 3\<rparr>, \<lparr>PodName = ''pool-3'', VReplicas = 4\<rparr>]) = 6
   \<and> removeReplicas 7
     [\<lparr>PodName = ''pool-0'', VReplicas = 1\<rparr>, \<lparr>PodName = ''pool-1'', VReplicas = 5\<rparr>,
      \<lparr>PodName = ''pool-2'', VReplicas = 3\<rparr>, \<lparr>PodName = ''pool-3'', VReplicas = 4\<rparr>] =
     [\<lparr>PodName = ''pool-1'', VReplicas = 5\<rparr>, \<lparr>PodName = ''pool-0'', VReplicas = 1\<rparr>]"
proof -
  let ?ps = "[\<lparr>PodName = ''pool-0'', VReplicas = 1\<rparr>, \<lparr>PodName = ''pool-1'', VReplicas = 5\<rparr>,
      \<lparr>PodName = ''pool-2'', VReplicas = 3\<rparr>, \<lparr>PodName = ''pool-3'', VReplicas = 4\<rparr>]"
  have a: "\<forall>p \<in> set ?ps. 0 \<le> VReplicas p" by simp
  have b: "(0::int) \<le> 7" "7 \<le> GetTotalVReplicas ?ps" by simp_all
  show ?thesis
    using removeReplicas_spec [OF a b] by (simp add: removeReplicas_def)
qed

text \<open>
  C1. The claim asks that every reservation entry without an observed placement takes its
  reserved vreplicas off the free capacity of its pod. The loop over the reservations of a
  vpod is left (\<^verbatim>\<open>break\<close>) at the first pod that has an observed placement, so the
  entries that the range would have visited after it are not accounted for. With a
  placement of 1 vreplica on pool-0 and reservations of 5 on pool-0 and 3 on pool-1,
  visited in this order, the snapshot has the free capacities [5] and the last ordinal 0,
  where the claim asks for [5, 7] and 1; visited in the other order it has [5, 7] and 1.
\<close>

theorem State_build_skips_reservation:
  "map_option fst
     (State_build (exampleBuilder MAXFILLUP [exampleVPod 1 [(''pool-0'', 1)]])
        [((''ns'', ''vpod''), [(''pool-0'', 5), (''pool-1'', 3)])]) =
     Some (Inr \<lparr>FreeCap = [5], LastOrdinal = 0, Capacity = 10, NumZones = 0, NumNodes = 0,
                SchedulerPolicy = MAXFILLUP, NodeToZoneMap = Map.empty\<rparr>)
   \<and> map_option fst
       (State_build (exampleBuilder MAXFILLUP [exampleVPod 1 [(''pool-0'', 1)]])
          [((''ns'', ''vpod''), [(''pool-1'', 3), (''pool-0'', 5)])]) =
     Some (Inr \<lparr>FreeCap = [5, 7], LastOrdinal = 1, Capacity = 10, NumZones = 0, NumNodes = 0,
                SchedulerPolicy = MAXFILLUP, NodeToZoneMap = Map.empty\<rparr>)"
  by (simp add: fixture_eval state_eval name_eval)

end
